theory Spec2Isabelle
  imports Complex_Main "HOL-Library.Multiset" "HOL-Library.Sublist"
begin

section \<open>The program\<close>

text \<open>
  A shallow embedding of the route-ordering and route-calculation code of the trip
  planner (\<^verbatim>\<open>app.js\<close>). JavaScript numbers are IEEE doubles; they are idealised
  here as real numbers wherever the code computes with them, and the values a double
  can take beyond the reals (NaN, the infinities) are made explicit where the code
  tests for them (waypoint validation, the initial \<^verbatim>\<open>Infinity\<close> of a nearest search)
  and where a NaN decides an order (the sorts of the location resolver).
  Network requests are outcomes supplied by an environment, exceptions are values, and
  the effects of a route calculation are returned as a trace.
\<close>

subsection \<open>Geospatial math\<close>

definition toRad :: "real \<Rightarrow> real" where
  "toRad deg = deg * pi / 180"

text \<open>\<^verbatim>\<open>Math.atan2(y, x)\<close> on real arguments.\<close>

definition atan2 :: "real \<Rightarrow> real \<Rightarrow> real" where
  "atan2 y x =
     (if 0 < x then arctan (y / x)
      else if x < 0 then (if 0 \<le> y then arctan (y / x) + pi else arctan (y / x) - pi)
      else if 0 < y then pi / 2
      else if y < 0 then - (pi / 2)
      else 0)"

text \<open>
  \<^verbatim>\<open>calculateDistance\<close> in exact arithmetic. The code's doubles differ from it by
  rounding, and for (nearly) antipodal points by more: there the term \<^verbatim>\<open>a\<close> can round
  above 1, and the code, which does not clamp it, returns NaN.
\<close>

definition calculateDistance :: "real \<Rightarrow> real \<Rightarrow> real \<Rightarrow> real \<Rightarrow> real" where
  "calculateDistance lat1 lon1 lat2 lon2 =
     (let R = 6371;
          dLat = toRad (lat2 - lat1);
          dLon = toRad (lon2 - lon1);
          a = sin (dLat / 2) * sin (dLat / 2) +
              cos (toRad lat1) * cos (toRad lat2) *
              sin (dLon / 2) * sin (dLon / 2);
          c = 2 * atan2 (sqrt a) (sqrt (1 - a))
      in R * c)"

subsection \<open>Destinations and the order optimizer\<close>

record location =
  lat :: real
  lng :: real

text \<open>
  A destination as \<^verbatim>\<open>findOptimalOrder\<close> receives it: \<^verbatim>\<open>optimizeRoute\<close> has resolved
  every destination before the call, so \<open>location\<close> is never null here. The field
  \<^verbatim>\<open>id\<close> is named \<open>dest_id\<close> (HOL has a constant \<open>id\<close>).
\<close>

record destination =
  dest_id :: nat
  address :: string
  location :: location
  locked :: bool

text \<open>\<^verbatim>\<open>Array.prototype.findIndex\<close>: \<open>None\<close> stands for \<^verbatim>\<open>-1\<close>.\<close>

fun findIndex :: "('a \<Rightarrow> bool) \<Rightarrow> 'a list \<Rightarrow> nat option" where
  "findIndex P [] = None"
| "findIndex P (x # xs) =
     (if P x then Some 0 else map_option Suc (findIndex P xs))"

text \<open>\<^verbatim>\<open>xs.splice(i, 1)\<close>: the list without its element at index \<open>i\<close>
  (unchanged when \<open>i\<close> is out of range).\<close>

definition splice1 :: "nat \<Rightarrow> 'a list \<Rightarrow> 'a list" where
  "splice1 i xs = take i xs @ drop (Suc i) xs"

text \<open>The running minimum \<^verbatim>\<open>nearestDist\<close> starts at \<^verbatim>\<open>Infinity\<close>.\<close>

datatype bound = Infinity | Dist real

fun below :: "real \<Rightarrow> bound \<Rightarrow> bool" where
  "below d Infinity = True"
| "below d (Dist b) = (d < b)"

text \<open>
  The inner loop \<^verbatim>\<open>for (let j = 0; j < unvisited.length; j++)\<close>, which the source
  writes out twice (in the placement loop and in the final while loop): the index of the
  first unvisited destination at the least distance from \<open>current\<close>.
\<close>

definition nearestStep ::
  "location \<Rightarrow> destination list \<Rightarrow> nat \<Rightarrow> nat \<times> bound \<Rightarrow> nat \<times> bound" where
  "nearestStep current unvisited j st =
     (case st of (nearestIdx, nearestDist) \<Rightarrow>
        let dist = calculateDistance (lat current) (lng current)
                     (lat (location (unvisited ! j))) (lng (location (unvisited ! j)))
        in if below dist nearestDist then (j, Dist dist) else (nearestIdx, nearestDist))"

definition nearestIndex :: "location \<Rightarrow> destination list \<Rightarrow> nat" where
  "nearestIndex current unvisited =
     fst (fold (nearestStep current unvisited) [0..<length unvisited] (0, Infinity))"

text \<open>
  One iteration of \<^verbatim>\<open>for (let i = 0; i < destinations.length; i++)\<close> on the state
  (result, unvisited, current). An unlocked position with nothing left unvisited pushes
  nothing.
\<close>

definition placeStep ::
  "destination list \<Rightarrow> nat \<Rightarrow> destination list \<times> destination list \<times> location
     \<Rightarrow> destination list \<times> destination list \<times> location" where
  "placeStep destinations i st =
     (case st of (result, unvisited, current) \<Rightarrow>
        let originalDest = destinations ! i in
        if locked originalDest then
          (result @ [originalDest],
           (case findIndex (\<lambda>d. dest_id d = dest_id originalDest) unvisited of
              None \<Rightarrow> unvisited
            | Some idx \<Rightarrow> splice1 idx unvisited),
           location originalDest)
        else if unvisited \<noteq> [] then
          (let nearestIdx = nearestIndex current unvisited;
               nearest = unvisited ! nearestIdx
           in (result @ [nearest], splice1 nearestIdx unvisited, location nearest))
        else (result, unvisited, current))"

text \<open>The final \<^verbatim>\<open>while (unvisited.length > 0)\<close> loop. It terminates because
  each iteration removes one unvisited destination; the proof follows the lemmas on
  \<open>nearestIndex\<close> below.\<close>

function appendRemaining ::
  "destination list \<Rightarrow> destination list \<Rightarrow> location \<Rightarrow> destination list" where
  "appendRemaining result unvisited current =
     (if unvisited \<noteq> [] then
        appendRemaining (result @ [unvisited ! nearestIndex current unvisited])
          (splice1 (nearestIndex current unvisited) unvisited)
          (location (unvisited ! nearestIndex current unvisited))
      else result)"
  by pat_completeness auto

text \<open>
  \<^verbatim>\<open>findOptimalOrder(start, destinations, returnToStart)\<close>. The source also computes
  the list of locked destinations and takes \<^verbatim>\<open>returnToStart\<close>; it reads neither.
\<close>

definition findOptimalOrder ::
  "location \<Rightarrow> destination list \<Rightarrow> bool \<Rightarrow> destination list" where
  "findOptimalOrder start destinations returnToStart =
     (let unlocked = filter (\<lambda>d. \<not> locked d) destinations in
      if length unlocked \<le> 1 then destinations
      else
        (case fold (placeStep destinations) [0..<length destinations] ([], unlocked, start) of
           (result, unvisited, current) \<Rightarrow> appendRemaining result unvisited current))"

subsection \<open>Route calculation: data\<close>

definition ROUTING_SERVERS :: "string list" where
  "ROUTING_SERVERS =
     [''https://router.project-osrm.org'',
      ''https://routing.openstreetmap.de/routed-car'']"

text \<open>
  A waypoint as \<^verbatim>\<open>validateWaypoints\<close> may receive it: the entry itself may be null or
  undefined (\<open>None\<close>), and each of \<^verbatim>\<open>lat\<close>, \<^verbatim>\<open>lng\<close> is any JavaScript value: a number
  (finite, NaN or an infinity) or a value whose \<^verbatim>\<open>typeof\<close> is not \<^verbatim>\<open>'number'\<close>.
\<close>

datatype jsnumber = Finite real | NaN | PosInfinity | NegInfinity

datatype jsvalue = Number jsnumber | NotOfTypeNumber

record waypoint_input =
  wp_lat :: jsvalue
  wp_lng :: jsvalue

text \<open>The comparisons \<^verbatim>\<open>x < c\<close> and \<^verbatim>\<open>x > c\<close> of a double with a finite constant,
  and \<^verbatim>\<open>isNaN\<close>.\<close>

fun js_less :: "jsnumber \<Rightarrow> real \<Rightarrow> bool" where
  "js_less (Finite x) c = (x < c)"
| "js_less NegInfinity c = True"
| "js_less PosInfinity c = False"
| "js_less NaN c = False"

fun js_greater :: "jsnumber \<Rightarrow> real \<Rightarrow> bool" where
  "js_greater (Finite x) c = (x > c)"
| "js_greater PosInfinity c = True"
| "js_greater NegInfinity c = False"
| "js_greater NaN c = False"

fun isNaN :: "jsnumber \<Rightarrow> bool" where
  "isNaN NaN = True"
| "isNaN _ = False"

text \<open>
  The three messages of \<^verbatim>\<open>validateWaypoints\<close>: ``At least two locations are required
  for routing.'', ``Invalid coordinates for waypoint n. Please re-enter the address.'' and
  ``Coordinates out of range for waypoint n. Please re-enter the address.'', with the
  waypoint number n (counted from 1).
\<close>

datatype validation_error =
  TooFewLocations
| InvalidCoordinates nat
| CoordinatesOutOfRange nat

datatype validation = Valid | Invalid validation_error

text \<open>The loop of \<^verbatim>\<open>validateWaypoints\<close> from index \<open>i\<close> on; it returns at the first
  waypoint that fails a check.\<close>

fun validateFrom :: "nat \<Rightarrow> waypoint_input option list \<Rightarrow> validation" where
  "validateFrom i [] = Valid"
| "validateFrom i (wp # rest) =
     (case wp of
        None \<Rightarrow> Invalid (InvalidCoordinates (i + 1))
      | Some w \<Rightarrow>
          (case wp_lat w of
             NotOfTypeNumber \<Rightarrow> Invalid (InvalidCoordinates (i + 1))
           | Number la \<Rightarrow>
               (case wp_lng w of
                  NotOfTypeNumber \<Rightarrow> Invalid (InvalidCoordinates (i + 1))
                | Number lo \<Rightarrow>
                    if js_less la (- 90) \<or> js_greater la 90 \<or>
                       js_less lo (- 180) \<or> js_greater lo 180
                    then Invalid (CoordinatesOutOfRange (i + 1))
                    else if isNaN la \<or> isNaN lo
                    then Invalid (InvalidCoordinates (i + 1))
                    else validateFrom (Suc i) rest)))"

definition validateWaypoints :: "waypoint_input option list option \<Rightarrow> validation" where
  "validateWaypoints waypoints =
     (case waypoints of
        None \<Rightarrow> Invalid TooFewLocations
      | Some wps \<Rightarrow>
          if length wps < 2 then Invalid TooFewLocations else validateFrom 0 wps)"

text \<open>
  The numeric reading of a waypoint, used after validation only: a validated waypoint is
  present and both its coordinates are finite numbers (lemma \<open>validateFrom_Valid_iff\<close>), so the
  default \<open>0\<close> is never read.
\<close>

fun numberOf :: "jsvalue \<Rightarrow> real" where
  "numberOf (Number (Finite x)) = x"
| "numberOf _ = 0"

definition toLocation :: "waypoint_input option \<Rightarrow> location" where
  "toLocation wp =
     (case wp of
        None \<Rightarrow> \<lparr>lat = 0, lng = 0\<rparr>
      | Some w \<Rightarrow> \<lparr>lat = numberOf (wp_lat w), lng = numberOf (wp_lng w)\<rparr>)"

text \<open>A GeoJSON LineString: \<^verbatim>\<open>[lng, lat]\<close> pairs.\<close>

datatype geometry = LineString "(real \<times> real) list"

text \<open>Duration in seconds, distance in meters.\<close>

record travel =
  duration :: real
  distance :: real

record osrm_route = travel +
  geometry :: geometry

record route_result = osrm_route +
  isFallback :: bool

record osrm_body =
  code :: string
  routes :: "osrm_route list"

text \<open>
  What one \<^verbatim>\<open>fetch\<close> of a routing URL, followed by \<^verbatim>\<open>response.json()\<close>, can do:
  the request is aborted by the timeout (\<^verbatim>\<open>AbortError\<close>), a \<^verbatim>\<open>TypeError\<close> is raised
  (network failure, or a body that is JSON \<^verbatim>\<open>null\<close>), another exception is raised with a
  message (for example a body that is not JSON), or a response with an HTTP status
  arrives; its body is read only when the status is 2xx. A missing \<^verbatim>\<open>code\<close> is the
  empty string and a missing \<^verbatim>\<open>routes\<close> the empty list (the code treats them alike).
\<close>

datatype fetch_outcome =
  AbortError
| TypeError string
| OtherError string
| Response nat osrm_body

datatype try_result =
  Success osrm_route
| Failure bool string

fun digit_char :: "nat \<Rightarrow> char" where
  "digit_char n = char_of (48 + n)"

fun show_nat :: "nat \<Rightarrow> string" where
  "show_nat n = (if n < 10 then [digit_char n] else show_nat (n div 10) @ [digit_char (n mod 10)])"

text \<open>\<^verbatim>\<open>tryRouteServer\<close>, on the outcome of its fetch: \<open>Failure retryable error\<close>.\<close>

definition tryRouteServer :: "fetch_outcome \<Rightarrow> try_result" where
  "tryRouteServer outcome =
     (case outcome of
        Response status data \<Rightarrow>
          if \<not> (200 \<le> status \<and> status \<le> 299) then
            (if status = 429 then Failure True ''Rate limited''
             else if status \<ge> 500 then Failure True ''Server error''
             else if status = 400 then Failure False ''Invalid request''
             else Failure True (''HTTP '' @ show_nat status))
          else if code data = ''NoRoute'' then
            Failure False ''No driving route exists between these locations. They may be on different landmasses or not accessible by road.''
          else if code data = ''NoSegment'' then
            Failure False ''One or more locations are too far from a road. Please choose locations closer to roads.''
          else if code data = ''InvalidInput'' \<or> code data = ''InvalidQuery'' then
            Failure False ''Invalid location coordinates. Please re-enter the addresses.''
          else if code data = ''TooBig'' then
            Failure False ''Route is too long. Please reduce the number of destinations or choose closer locations.''
          else if code data \<noteq> ''Ok'' \<or> routes data = [] then
            Failure True (''Unexpected response from routing service: '' @
                          (if code data = [] then ''No routes returned'' else code data))
          else Success (hd (routes data))
      | AbortError \<Rightarrow> Failure True ''Request timed out''
      | TypeError msg \<Rightarrow> Failure True ''Network error''
      | OtherError msg \<Rightarrow> Failure True (if msg = [] then ''Unknown error'' else msg))"

subsection \<open>Route calculation: fallback estimate\<close>

text \<open>One iteration of the loop of \<^verbatim>\<open>calculateFallbackRoute\<close> on
  (totalDistance, coordinates).\<close>

definition fallbackStep ::
  "location list \<Rightarrow> nat \<Rightarrow> real \<times> (real \<times> real) list \<Rightarrow> real \<times> (real \<times> real) list" where
  "fallbackStep waypoints i st =
     (case st of (totalDistance, coordinates) \<Rightarrow>
        (if i > 0 then
           totalDistance +
             calculateDistance
               (lat (waypoints ! (i - 1))) (lng (waypoints ! (i - 1)))
               (lat (waypoints ! i)) (lng (waypoints ! i)) * 1000
         else totalDistance,
         coordinates @ [(lng (waypoints ! i), lat (waypoints ! i))]))"

definition calculateFallbackRoute :: "location list \<Rightarrow> route_result" where
  "calculateFallbackRoute waypoints =
     (case fold (fallbackStep waypoints) [0..<length waypoints] (0, []) of
        (totalDistance, coordinates) \<Rightarrow>
          \<lparr>duration = (totalDistance / 1000) / 50 * 3600,
           distance = totalDistance,
           geometry = LineString coordinates,
           isFallback = True\<rparr>)"

subsection \<open>Route calculation: providers, retries, failover\<close>

text \<open>
  The environment of one call of \<^verbatim>\<open>calculateRoute\<close>: whether the browser reports itself
  online, what the fetch of attempt number \<open>k\<close> (from 0) on a server does, and whether the
  connectivity probe succeeds (\<^verbatim>\<open>testNetworkConnectivity\<close>: \<^verbatim>\<open>response.ok\<close>, false on
  any exception).
\<close>

record network =
  online :: bool
  route_fetch :: "string \<Rightarrow> nat \<Rightarrow> fetch_outcome"
  probe_ok :: bool

text \<open>What the call does to the outside, in order: routing requests (server, waypoint
  chain), backoff pauses (milliseconds), the connectivity probe, and toasts.\<close>

datatype effect =
  Request string "location list"
| Backoff nat
| Probe
| Toast string

record error_entry =
  server :: string
  attempt_no :: nat
  error :: string

record options =
  opt_maxRetries :: "nat option"
  opt_useFallback :: "bool option"

text \<open>
  The inner loop \<^verbatim>\<open>for (let attempt = 0; attempt <= maxRetries; attempt++)\<close> on one
  server, from \<open>attempt\<close> on. The first component is the route of a successful attempt
  (the \<^verbatim>\<open>return result.data\<close>), \<open>None\<close> when the loop ends or breaks without one.
\<close>

function retryLoop ::
  "network \<Rightarrow> string \<Rightarrow> location list \<Rightarrow> nat \<Rightarrow> nat \<Rightarrow> error_entry list \<times> effect list
     \<Rightarrow> osrm_route option \<times> error_entry list \<times> effect list" where
  "retryLoop env serverUrl coords maxRetries attempt st =
     (case st of (errors, trace) \<Rightarrow>
        if attempt \<le> maxRetries then
          (case tryRouteServer (route_fetch env serverUrl attempt) of
             Success d \<Rightarrow> (Some d, errors, trace @ [Request serverUrl coords])
           | Failure retryable err \<Rightarrow>
               if \<not> retryable then
                 (None,
                  errors @ [\<lparr>server = serverUrl, attempt_no = attempt + 1, error = err\<rparr>],
                  trace @ [Request serverUrl coords])
               else
                 retryLoop env serverUrl coords maxRetries (Suc attempt)
                   (errors @ [\<lparr>server = serverUrl, attempt_no = attempt + 1, error = err\<rparr>],
                    trace @ [Request serverUrl coords] @
                      (if attempt < maxRetries
                       then [Backoff (min (1000 * 2 ^ attempt) 5000)] else [])))
        else (None, errors, trace))"
  by pat_completeness auto

termination
  by (relation "measure (\<lambda>(env, serverUrl, coords, maxRetries, attempt, st). Suc maxRetries - attempt)")
    auto

declare retryLoop.simps [simp del]

text \<open>The outer loop \<^verbatim>\<open>for (const serverUrl of ROUTING_SERVERS)\<close>.\<close>

fun serverLoop ::
  "network \<Rightarrow> string list \<Rightarrow> location list \<Rightarrow> nat \<Rightarrow> error_entry list \<times> effect list
     \<Rightarrow> osrm_route option \<times> error_entry list \<times> effect list" where
  "serverLoop env [] coords maxRetries st = (None, fst st, snd st)"
| "serverLoop env (serverUrl # rest) coords maxRetries st =
     (case retryLoop env serverUrl coords maxRetries 0 st of
        (Some d, errors, trace) \<Rightarrow> (Some d, errors, trace)
      | (None, errors, trace) \<Rightarrow> serverLoop env rest coords maxRetries (errors, trace))"

text \<open>\<^verbatim>\<open>String.prototype.includes\<close> (\<open>includes\<close> is a keyword of Isabelle).\<close>

fun includes_str :: "string \<Rightarrow> string \<Rightarrow> bool" where
  "includes_str [] pat = (pat = [])"
| "includes_str (c # cs) pat = (prefix pat (c # cs) \<or> includes_str cs pat)"

text \<open>
  The errors \<^verbatim>\<open>calculateRoute\<close> throws, by message: the validation message;
  ``You appear to be offline. ...''; ``Unable to connect to routing services. ...'';
  ``Routing services are temporarily unavailable. ...''; the message a provider
  reported; ``Route calculation service is busy. ...''; ``Unable to calculate route. ...''.
\<close>

datatype route_error =
  ValidationFailed validation_error
| Offline
| CannotConnect
| ServicesUnavailable
| ProviderReported string
| ServiceBusy
| CannotCalculate

text \<open>The \<^verbatim>\<open>result.data\<close> of a provider has no \<^verbatim>\<open>isFallback\<close> property; its readers
  test it for truthiness, so the absent property is \<open>False\<close>.\<close>

definition providerRoute :: "osrm_route \<Rightarrow> route_result" where
  "providerRoute d =
     \<lparr>duration = duration d, distance = distance d, geometry = geometry d,
      isFallback = False\<rparr>"

text \<open>Step 5 of \<^verbatim>\<open>calculateRoute\<close>: every server failed; \<open>errors\<close> are the recorded
  failures and \<open>trace\<close> what was done so far.\<close>

definition analyseFailure ::
  "network \<Rightarrow> location list \<Rightarrow> bool \<Rightarrow> error_entry list \<Rightarrow> effect list
     \<Rightarrow> (route_error + route_result) \<times> effect list" where
  "analyseFailure env waypoints useFallback errors trace =
     (let allNetworkErrors =
            list_all (\<lambda>e. error e = ''Network error'' \<or> error e = ''Request timed out'') errors
      in
      if allNetworkErrors then
        (let hasConnectivity = probe_ok env in
         if \<not> hasConnectivity then
           (if useFallback then
              (Inr (calculateFallbackRoute waypoints),
               trace @ [Probe, Toast ''Network issue: Using estimated route''])
            else (Inl CannotConnect, trace @ [Probe]))
         else
           (if useFallback then
              (Inr (calculateFallbackRoute waypoints),
               trace @ [Probe, Toast ''Routing servers unavailable: Using estimated route''])
            else (Inl ServicesUnavailable, trace @ [Probe])))
      else
        (case find (\<lambda>e. includes_str (error e) ''No driving route'' \<or>
                         includes_str (error e) ''too far from a road'' \<or>
                         includes_str (error e) ''Invalid location'' \<or>
                         includes_str (error e) ''too long'') errors of
           Some nonRetryableError \<Rightarrow> (Inl (ProviderReported (error nonRetryableError)), trace)
         | None \<Rightarrow>
             if list_ex (\<lambda>e. error e = ''Rate limited'') errors then (Inl ServiceBusy, trace)
             else if useFallback then
               (Inr (calculateFallbackRoute waypoints),
                trace @ [Toast ''Route calculation failed: Using estimated route''])
             else (Inl CannotCalculate, trace)))"

text \<open>
  \<^verbatim>\<open>calculateRoute(waypoints, options)\<close>: the value it returns (\<open>Inr\<close>) or the error it
  throws (\<open>Inl\<close>), together with the effects it had, in order. The coordinate string of
  the request URL is determined by the waypoint chain, which stands for it in
  \<open>Request\<close>. \<open>maxRetries\<close> is a count; the defaults are 2 and true.
\<close>

definition calculateRoute ::
  "network \<Rightarrow> waypoint_input option list option \<Rightarrow> options
     \<Rightarrow> (route_error + route_result) \<times> effect list" where
  "calculateRoute env waypoints opts =
     (let maxRetries = (case opt_maxRetries opts of None \<Rightarrow> 2 | Some n \<Rightarrow> n);
          useFallback = (case opt_useFallback opts of None \<Rightarrow> True | Some b \<Rightarrow> b)
      in
      case validateWaypoints waypoints of
        Invalid e \<Rightarrow> (Inl (ValidationFailed e), [])
      | Valid \<Rightarrow>
          (let coords = map toLocation (case waypoints of None \<Rightarrow> [] | Some wps \<Rightarrow> wps) in
           if \<not> online env then
             (if useFallback then
                (Inr (calculateFallbackRoute coords), [Toast ''Offline: Using estimated route''])
              else (Inl Offline, []))
           else
             (case serverLoop env ROUTING_SERVERS coords maxRetries ([], []) of
                (Some d, errors, trace) \<Rightarrow> (Inr (providerRoute d), trace)
              | (None, errors, trace) \<Rightarrow>
                  analyseFailure env coords useFallback errors trace)))"

subsection \<open>Location resolver\<close>

text \<open>
  A geocoding result. \<open>c_lat\<close> and \<open>c_lon\<close> are \<^verbatim>\<open>parseFloat(result.lat)\<close> and
  \<^verbatim>\<open>parseFloat(result.lon)\<close>; the three optional properties are absent (\<open>None\<close>) until
  \<^verbatim>\<open>searchLocation\<close> and \<^verbatim>\<open>searchLocationWithTimes\<close> set them, to numbers that
  may be NaN.
\<close>

record candidate =
  display_name :: string
  c_lat :: real
  c_lon :: real
  straightLineDistance :: "jsnumber option"
  drivingTime :: "jsnumber option"
  drivingDistance :: "jsnumber option"

text \<open>The search URL: the query and, when present, the \<^verbatim>\<open>viewbox\<close> parameter
  (west, south, east, north).\<close>

record search_request =
  q :: string
  viewbox :: "(real \<times> real \<times> real \<times> real) option"

text \<open>
  The test \<^verbatim>\<open>nearLat && nearLng\<close> on two values that are null or numbers: it holds when
  both are numbers other than 0 (0 is falsy), and then gives the reference point.
\<close>

definition usableReference :: "real option \<Rightarrow> real option \<Rightarrow> (real \<times> real) option" where
  "usableReference nearLat nearLng =
     (case nearLat of
        None \<Rightarrow> None
      | Some la \<Rightarrow>
          (case nearLng of
             None \<Rightarrow> None
           | Some lo \<Rightarrow> if la \<noteq> 0 \<and> lo \<noteq> 0 then Some (la, lo) else None))"

definition searchRequest :: "string \<Rightarrow> real option \<Rightarrow> real option \<Rightarrow> search_request" where
  "searchRequest query nearLat nearLng =
     \<lparr>q = query,
      viewbox =
        (case usableReference nearLat nearLng of
           None \<Rightarrow> None
         | Some (la, lo) \<Rightarrow> Some (lo - 0.5, la - 0.5, lo + 0.5, la + 0.5))\<rparr>"

text \<open>
  In the code's doubles the haversine term \<^verbatim>\<open>a\<close> of \<^verbatim>\<open>calculateDistance\<close> can round
  above 1 when the two points are (nearly) antipodal; \<^verbatim>\<open>Math.sqrt(1 - a)\<close> is then NaN,
  and so is the distance (the code does not clamp \<^verbatim>\<open>a\<close>). At which coordinates this
  happens depends on the machine's rounding, which the resolver's model takes as the
  parameter \<open>roundsAboveOne\<close>: the distance is NaN there, and elsewhere the number that
  \<open>calculateDistance\<close> gives.
\<close>

definition calculateDistanceNumber ::
  "(real \<Rightarrow> real \<Rightarrow> real \<Rightarrow> real \<Rightarrow> bool) \<Rightarrow> real \<Rightarrow> real \<Rightarrow> real \<Rightarrow> real \<Rightarrow> jsnumber" where
  "calculateDistanceNumber roundsAboveOne lat1 lon1 lat2 lon2 =
     (if roundsAboveOne lat1 lon1 lat2 lon2 then NaN
      else Finite (calculateDistance lat1 lon1 lat2 lon2))"

text \<open>The subtraction \<^verbatim>\<open>x - y\<close> of two numbers.\<close>

fun js_minus :: "jsnumber \<Rightarrow> jsnumber \<Rightarrow> jsnumber" where
  "js_minus (Finite x) (Finite y) = Finite (x - y)"
| "js_minus NaN y = NaN"
| "js_minus x NaN = NaN"
| "js_minus PosInfinity PosInfinity = NaN"
| "js_minus NegInfinity NegInfinity = NaN"
| "js_minus PosInfinity y = PosInfinity"
| "js_minus NegInfinity y = NegInfinity"
| "js_minus (Finite x) PosInfinity = NegInfinity"
| "js_minus (Finite x) NegInfinity = PosInfinity"

text \<open>
  \<^verbatim>\<open>Array.prototype.sort(cmp)\<close> is a stable sort. It reads a result \<open>v\<close> of the
  comparator through the operation SortCompare of ECMAScript, which takes NaN for +0;
  \<open>notAfter v\<close> says that the first argument need not come after the second
  (\<open>v \<le> 0\<close>). For a comparator that is consistent the result of the sort is the one
  that insertion from the right computes. A comparator that returns NaN for some pairs
  is not consistent, and the order is then implementation-defined: insertion gives one
  such order, and nothing is proved of it.
\<close>

fun notAfter :: "jsnumber \<Rightarrow> bool" where
  "notAfter (Finite v) = (v \<le> 0)"
| "notAfter NaN = True"
| "notAfter NegInfinity = True"
| "notAfter PosInfinity = False"

fun js_insert :: "('a \<Rightarrow> 'a \<Rightarrow> jsnumber) \<Rightarrow> 'a \<Rightarrow> 'a list \<Rightarrow> 'a list" where
  "js_insert cmp x [] = [x]"
| "js_insert cmp x (y # ys) =
     (if notAfter (cmp x y) then x # y # ys else y # js_insert cmp x ys)"

definition js_sort :: "('a \<Rightarrow> 'a \<Rightarrow> jsnumber) \<Rightarrow> 'a list \<Rightarrow> 'a list" where
  "js_sort cmp xs = foldr (js_insert cmp) xs []"

text \<open>The property \<^verbatim>\<open>r.straightLineDistance\<close> read as a number (an absent property is
  \<^verbatim>\<open>undefined\<close>, which subtraction turns into NaN), and
  \<^verbatim>\<open>(r.straightLineDistance || 0)\<close> (absent, NaN and 0 are falsy).\<close>

definition sld :: "candidate \<Rightarrow> jsnumber" where
  "sld r = (case straightLineDistance r of None \<Rightarrow> NaN | Some d \<Rightarrow> d)"

definition sldOrZero :: "candidate \<Rightarrow> jsnumber" where
  "sldOrZero r =
     (case straightLineDistance r of
        None \<Rightarrow> Finite 0
      | Some NaN \<Rightarrow> Finite 0
      | Some d \<Rightarrow> d)"

text \<open>The body of the \<^verbatim>\<open>forEach\<close> of \<^verbatim>\<open>searchLocation\<close>.\<close>

definition withStraightLine ::
  "(real \<Rightarrow> real \<Rightarrow> real \<Rightarrow> real \<Rightarrow> bool) \<Rightarrow> real \<Rightarrow> real \<Rightarrow> candidate \<Rightarrow> candidate" where
  "withStraightLine roundsAboveOne nearLat nearLng result =
     result\<lparr>straightLineDistance :=
       Some (calculateDistanceNumber roundsAboveOne nearLat nearLng
               (c_lat result) (c_lon result))\<rparr>"

text \<open>
  \<^verbatim>\<open>searchLocation(query, nearLat, nearLng)\<close>. The geocoder answers a request with a
  list of results, or the request fails (\<open>None\<close>: the fetch throws, the response is not ok,
  or its body is not JSON), which the function catches and turns into the empty list.
\<close>

definition searchLocation ::
  "(real \<Rightarrow> real \<Rightarrow> real \<Rightarrow> real \<Rightarrow> bool) \<Rightarrow> (search_request \<Rightarrow> candidate list option)
     \<Rightarrow> string \<Rightarrow> real option \<Rightarrow> real option \<Rightarrow> candidate list" where
  "searchLocation roundsAboveOne geocoder query nearLat nearLng =
     (case geocoder (searchRequest query nearLat nearLng) of
        None \<Rightarrow> []
      | Some results \<Rightarrow>
          (case usableReference nearLat nearLng of
             None \<Rightarrow> results
           | Some (la, lo) \<Rightarrow>
               if results \<noteq> [] then
                 js_sort (\<lambda>a b. js_minus (sld a) (sld b))
                   (map (withStraightLine roundsAboveOne la lo) results)
               else results))"

record time_info = travel +
  isEstimate :: bool

text \<open>
  The body of the \<^verbatim>\<open>try\<close> of \<^verbatim>\<open>estimateDrivingTime\<close> for one server: \<open>Some\<close> is its
  \<^verbatim>\<open>return\<close>; \<open>None\<close> is every way on to the next server (\<^verbatim>\<open>continue\<close> on a response
  that is not ok, an answer without a route, an exception caught by the \<^verbatim>\<open>catch\<close>).
\<close>

definition tryEstimate :: "fetch_outcome \<Rightarrow> time_info option" where
  "tryEstimate outcome =
     (case outcome of
        Response status data \<Rightarrow>
          if \<not> (200 \<le> status \<and> status \<le> 299) then None
          else if code data = ''Ok'' \<and> routes data \<noteq> [] then
            Some \<lparr>duration = duration (hd (routes data)),
                  distance = distance (hd (routes data)),
                  isEstimate = False\<rparr>
          else None
      | AbortError \<Rightarrow> None
      | TypeError msg \<Rightarrow> None
      | OtherError msg \<Rightarrow> None)"

fun estimateLoop :: "(string \<Rightarrow> fetch_outcome) \<Rightarrow> string list \<Rightarrow> time_info option" where
  "estimateLoop fetch [] = None"
| "estimateLoop fetch (serverUrl # rest) =
     (case tryEstimate (fetch serverUrl) of
        Some t \<Rightarrow> Some t
      | None \<Rightarrow> estimateLoop fetch rest)"

text \<open>\<^verbatim>\<open>estimateDrivingTime\<close>, given what the fetch on each server does during the
  call. The coordinates are numbers (their \<^verbatim>\<open>toFixed\<close> does not throw).\<close>

definition estimateDrivingTime ::
  "(string \<Rightarrow> fetch_outcome) \<Rightarrow> real \<Rightarrow> real \<Rightarrow> real \<Rightarrow> real \<Rightarrow> time_info" where
  "estimateDrivingTime fetch fromLat fromLng toLat toLng =
     (case estimateLoop fetch ROUTING_SERVERS of
        Some t \<Rightarrow> t
      | None \<Rightarrow>
          (let straightLineKm = calculateDistance fromLat fromLng toLat toLng in
           \<lparr>duration = (straightLineKm / 40) * 3600,
            distance = straightLineKm * 1000,
            isEstimate = True\<rparr>))"

text \<open>The comparator of the second sort.\<close>

definition byDrivingTime :: "candidate \<Rightarrow> candidate \<Rightarrow> jsnumber" where
  "byDrivingTime a b =
     (case drivingTime a of
        Some ta \<Rightarrow> (case drivingTime b of Some tb \<Rightarrow> js_minus ta tb | None \<Rightarrow> Finite (- 1))
      | None \<Rightarrow>
          (case drivingTime b of
             Some tb \<Rightarrow> Finite 1
           | None \<Rightarrow> js_minus (sldOrZero a) (sldOrZero b)))"

text \<open>
  One iteration of the loop over \<^verbatim>\<open>topResults\<close>: the result with its driving time and
  distance. \<open>fetches i\<close> is what the fetches of the \<open>i\<close>-th lookup do. The value
  \<^verbatim>\<open>timeInfo\<close> is an object, so \<^verbatim>\<open>timeInfo ? timeInfo.duration : null\<close> is its duration.
  The estimate of \<open>estimateDrivingTime\<close> is computed from the straight-line distance, so
  where that distance is NaN in the code's doubles the estimated duration and distance
  are NaN too.
\<close>

definition withDrivingTime ::
  "(real \<Rightarrow> real \<Rightarrow> real \<Rightarrow> real \<Rightarrow> bool) \<Rightarrow> (nat \<Rightarrow> string \<Rightarrow> fetch_outcome)
     \<Rightarrow> real \<Rightarrow> real \<Rightarrow> candidate list \<Rightarrow> nat \<Rightarrow> candidate" where
  "withDrivingTime roundsAboveOne fetches nearLat nearLng topResults i =
     (let result = topResults ! i;
          timeInfo = estimateDrivingTime (fetches i) nearLat nearLng (c_lat result) (c_lon result);
          fromNaN = (isEstimate timeInfo \<and>
                     roundsAboveOne nearLat nearLng (c_lat result) (c_lon result))
      in result\<lparr>drivingTime := Some (if fromNaN then NaN else Finite (duration timeInfo)),
                drivingDistance := Some (if fromNaN then NaN else Finite (distance timeInfo))\<rparr>)"

definition searchLocationWithTimes ::
  "(real \<Rightarrow> real \<Rightarrow> real \<Rightarrow> real \<Rightarrow> bool) \<Rightarrow> (search_request \<Rightarrow> candidate list option)
     \<Rightarrow> (nat \<Rightarrow> string \<Rightarrow> fetch_outcome) \<Rightarrow> string \<Rightarrow> real option \<Rightarrow> real option
     \<Rightarrow> candidate list" where
  "searchLocationWithTimes roundsAboveOne geocoder fetches query nearLat nearLng =
     (let results = searchLocation roundsAboveOne geocoder query nearLat nearLng in
      case usableReference nearLat nearLng of
        None \<Rightarrow> results
      | Some (la, lo) \<Rightarrow>
          if results = [] then results
          else
            (let topResults = take 3 results;
                 resultsWithTimes =
                   map (withDrivingTime roundsAboveOne fetches la lo topResults)
                     [0..<length topResults]
             in js_sort byDrivingTime resultsWithTimes))"

subsection \<open>Result summary\<close>

text \<open>The statistics \<^verbatim>\<open>displayResults\<close> computes before it formats them.\<close>

record summary =
  optimizedTime :: real
  timeSaved :: real
  totalDistance :: real
  isEstimated :: bool

definition displayResults ::
  "destination list \<Rightarrow> route_result \<Rightarrow> route_result \<Rightarrow> summary" where
  "displayResults optimizedOrder optimizedRoute originalRoute =
     \<lparr>optimizedTime = duration optimizedRoute,
      timeSaved = max 0 (duration originalRoute - duration optimizedRoute),
      totalDistance = distance optimizedRoute,
      isEstimated = (isFallback optimizedRoute \<or> isFallback originalRoute)\<rparr>"

subsection \<open>Notions used to state the properties\<close>

text \<open>
  The invariant of the placement loop after \<open>k\<close> iterations: one destination has been
  pushed per position, the locked ones at their own positions; as many destinations are
  unvisited as unlocked positions remain; and nothing has been lost or duplicated.
\<close>

definition placeInv ::
  "destination list \<Rightarrow> nat \<Rightarrow> destination list \<times> destination list \<times> location
     \<Rightarrow> bool" where
  "placeInv destinations k st =
     (case st of (result, unvisited, current) \<Rightarrow>
        length result = k \<and>
        (\<forall>i<k. locked (destinations ! i) \<longrightarrow> result ! i = destinations ! i) \<and>
        length unvisited = length (filter (\<lambda>d. \<not> locked d) (drop k destinations)) \<and>
        set unvisited \<subseteq> set (filter (\<lambda>d. \<not> locked d) destinations) \<and>
        mset result + mset unvisited =
          mset (filter locked (take k destinations)) +
          mset (filter (\<lambda>d. \<not> locked d) destinations))"

text \<open>The number of routing requests a trace holds for a server.\<close>

fun isRequestTo :: "string \<Rightarrow> effect \<Rightarrow> bool" where
  "isRequestTo s (Request s' coords) = (s' = s)"
| "isRequestTo s _ = False"

definition requestsTo :: "string \<Rightarrow> effect list \<Rightarrow> nat" where
  "requestsTo s trace = length (filter (isRequestTo s) trace)"

text \<open>What an attempt that fails retryably on attempt \<open>k\<close> records and does.\<close>

definition attemptEffects :: "string \<Rightarrow> location list \<Rightarrow> nat \<Rightarrow> nat \<Rightarrow> effect list" where
  "attemptEffects s coords m k =
     Request s coords # (if k < m then [Backoff (min (1000 * 2 ^ k) 5000)] else [])"

text \<open>The routing providers in the order they are tried.\<close>

definition primaryServer :: string where
  "primaryServer = ROUTING_SERVERS ! 0"

definition secondaryServer :: string where
  "secondaryServer = ROUTING_SERVERS ! 1"

text \<open>
  The waypoint lists the specification rejects, in its words: fewer than two entries, or
  an entry whose latitude or longitude is non-numeric, NaN or out of range (latitude
  within 90 degrees, longitude within 180). A missing list or entry counts as rejected.
\<close>

definition badCoordinate :: "jsvalue \<Rightarrow> real \<Rightarrow> bool" where
  "badCoordinate v limit =
     (case v of
        NotOfTypeNumber \<Rightarrow> True
      | Number n \<Rightarrow>
          (case n of
             NaN \<Rightarrow> True
           | PosInfinity \<Rightarrow> True
           | NegInfinity \<Rightarrow> True
           | Finite x \<Rightarrow> x < - limit \<or> limit < x))"

definition badWaypoint :: "waypoint_input option \<Rightarrow> bool" where
  "badWaypoint wp =
     (case wp of
        None \<Rightarrow> True
      | Some w \<Rightarrow> badCoordinate (wp_lat w) 90 \<or> badCoordinate (wp_lng w) 180)"

definition mustBeRejected :: "waypoint_input option list option \<Rightarrow> bool" where
  "mustBeRejected waypoints =
     (case waypoints of
        None \<Rightarrow> True
      | Some wps \<Rightarrow> length wps < 2 \<or> list_ex badWaypoint wps)"

text \<open>The specification's total straight-line distance of a waypoint chain, in
  kilometers: the sum of the distances between consecutive waypoints.\<close>

definition totalStraightLineKm :: "location list \<Rightarrow> real" where
  "totalStraightLineKm waypoints =
     (\<Sum>k = 1..<length waypoints.
        calculateDistance
          (lat (waypoints ! (k - 1))) (lng (waypoints ! (k - 1)))
          (lat (waypoints ! k)) (lng (waypoints ! k)))"

text \<open>An attempt records a network or timeout error: the two messages that
  \<open>analyseFailure\<close> counts as network-related.\<close>

definition networkClass :: "try_result \<Rightarrow> bool" where
  "networkClass r =
     (case r of
        Success d \<Rightarrow> False
      | Failure retryable e \<Rightarrow> e = ''Network error'' \<or> e = ''Request timed out'')"

text \<open>A lookup on a server succeeds when a 2xx response arrives whose body has code
  \<^verbatim>\<open>Ok\<close> and at least one route; every other outcome is a failed attempt.\<close>

definition providerAnswers :: "fetch_outcome \<Rightarrow> bool" where
  "providerAnswers outcome =
     (case outcome of
        Response status data \<Rightarrow>
          200 \<le> status \<and> status \<le> 299 \<and> code data = ''Ok'' \<and> routes data \<noteq> []
      | AbortError \<Rightarrow> False
      | TypeError msg \<Rightarrow> False
      | OtherError msg \<Rightarrow> False)"

text \<open>The straight-line distance of a candidate from the reference, as a real number.\<close>

definition distanceFrom :: "real \<Rightarrow> real \<Rightarrow> candidate \<Rightarrow> real" where
  "distanceFrom la lo c = calculateDistance la lo (c_lat c) (c_lon c)"

text \<open>The haversine term \<^verbatim>\<open>a\<close> of \<^verbatim>\<open>calculateDistance\<close>, in exact arithmetic.\<close>

definition haversineTerm :: "real \<Rightarrow> real \<Rightarrow> real \<Rightarrow> real \<Rightarrow> real" where
  "haversineTerm lat1 lon1 lat2 lon2 =
     sin (toRad (lat2 - lat1) / 2) * sin (toRad (lat2 - lat1) / 2) +
     cos (toRad lat1) * cos (toRad lat2) *
     sin (toRad (lon2 - lon1) / 2) * sin (toRad (lon2 - lon1) / 2)"

text \<open>The driving time a candidate carries, when it is a finite number (0 otherwise).\<close>

definition timeOf :: "candidate \<Rightarrow> real" where
  "timeOf c = (case drivingTime c of Some (Finite t) \<Rightarrow> t | _ \<Rightarrow> 0)"

section \<open>Verification\<close>

subsection \<open>Termination of the final loop of the optimizer\<close>

lemma nearestIndex_fold_le:
  "fst (fold (nearestStep current unvisited) [0..<n] (0, Infinity)) \<le> n - 1"
proof (induction n)
  case 0
  then show ?case by simp
next
  case (Suc n)
  obtain k b where st: "fold (nearestStep current unvisited) [0..<n] (0, Infinity) = (k, b)"
    by (cases "fold (nearestStep current unvisited) [0..<n] (0, Infinity)")
  with Suc have "k \<le> n - 1" by simp
  moreover have "fst (nearestStep current unvisited n (k, b)) = n
      \<or> fst (nearestStep current unvisited n (k, b)) = k"
    by (simp add: nearestStep_def Let_def)
  ultimately show ?case
    using st by auto
qed

lemma nearestIndex_less:
  "unvisited \<noteq> [] \<Longrightarrow> nearestIndex current unvisited < length unvisited"
  using nearestIndex_fold_le [of current unvisited "length unvisited"]
  by (cases unvisited) (simp_all add: nearestIndex_def)

lemma length_splice1: "i < length xs \<Longrightarrow> length (splice1 i xs) = length xs - 1"
  by (simp add: splice1_def)

termination appendRemaining
proof (relation "measure (\<lambda>(result, unvisited, current). length unvisited)")
  show "wf (measure (\<lambda>(result, unvisited, current). length unvisited))" by simp
next
  fix result unvisited :: "destination list" and current :: location
  assume "unvisited \<noteq> []"
  then show "((result @ [unvisited ! nearestIndex current unvisited],
               splice1 (nearestIndex current unvisited) unvisited,
               location (unvisited ! nearestIndex current unvisited)),
              (result, unvisited, current))
             \<in> measure (\<lambda>(result, unvisited, current). length unvisited)"
    using nearestIndex_less [of unvisited current]
      length_splice1 [of "nearestIndex current unvisited" unvisited]
    by (cases unvisited) simp_all
qed

subsection \<open>The distance\<close>

lemma calculateDistance_self: "calculateDistance la lo la lo = 0"
  by (simp add: calculateDistance_def toRad_def atan2_def)

lemma toRad_diff: "toRad (x - y) = - toRad (y - x)"
proof -
  have "(x - y) * pi = - ((y - x) * pi)"
    by (simp add: algebra_simps)
  then show ?thesis
    unfolding toRad_def by simp
qed

lemma sin_half_sq: "sin (toRad (x - y) / 2) * sin (toRad (x - y) / 2)
     = sin (toRad (y - x) / 2) * sin (toRad (y - x) / 2)"
proof -
  have "sin (toRad (x - y) / 2) = - sin (toRad (y - x) / 2)"
    using toRad_diff [of x y] by simp
  then show ?thesis by simp
qed

lemma calculateDistance_sym: "calculateDistance la lo la' lo' = calculateDistance la' lo' la lo"
proof -
  have "sin (toRad (la' - la) / 2) * sin (toRad (la' - la) / 2) +
        cos (toRad la) * cos (toRad la') * sin (toRad (lo' - lo) / 2) * sin (toRad (lo' - lo) / 2)
      = sin (toRad (la - la') / 2) * sin (toRad (la - la') / 2) +
        cos (toRad la') * cos (toRad la) * sin (toRad (lo - lo') / 2) * sin (toRad (lo - lo') / 2)"
    using sin_half_sq [of la' la] sin_half_sq [of lo' lo]
    by (simp add: mult.assoc mult.commute)
  then show ?thesis
    by (simp add: calculateDistance_def Let_def)
qed

lemma atan2_nonneg: "0 \<le> y \<Longrightarrow> 0 \<le> atan2 y x"
proof -
  assume y: "0 \<le> y"
  have "- (pi / 2) < arctan (y / x)" by (rule arctan_lbound)
  then have "0 \<le> arctan (y / x) + pi" using pi_gt_zero by linarith
  moreover have "0 < x \<Longrightarrow> 0 \<le> arctan (y / x)"
    using y by simp
  ultimately show ?thesis
    using y by (simp add: atan2_def)
qed

lemma atan2_pos: "0 < y \<Longrightarrow> 0 < atan2 y x"
proof -
  assume y: "0 < y"
  have "- (pi / 2) < arctan (y / x)" by (rule arctan_lbound)
  then have "0 < arctan (y / x) + pi" using pi_gt_zero by linarith
  moreover have "0 < x \<Longrightarrow> 0 < arctan (y / x)"
    using y by simp
  ultimately show ?thesis
    using y by (simp add: atan2_def)
qed

lemma calculateDistance_nonneg:
  assumes "0 \<le> cos (toRad la) * cos (toRad la')"
  shows "0 \<le> calculateDistance la lo la' lo'"
proof -
  define a where "a = sin (toRad (la' - la) / 2) * sin (toRad (la' - la) / 2) +
              cos (toRad la) * cos (toRad la') *
              sin (toRad (lo' - lo) / 2) * sin (toRad (lo' - lo) / 2)"
  have "0 \<le> cos (toRad la) * cos (toRad la') *
              (sin (toRad (lo' - lo) / 2) * sin (toRad (lo' - lo) / 2))"
    using assms by (rule mult_nonneg_nonneg) simp
  then have "0 \<le> a" by (simp add: a_def mult.assoc)
  then have "0 \<le> atan2 (sqrt a) (sqrt (1 - a))"
    by (intro atan2_nonneg) simp
  then show ?thesis
    by (simp add: calculateDistance_def Let_def a_def)
qed

text \<open>
  C8 holds of the real-valued distance (lemmas \<open>calculateDistance_self\<close> and
  \<open>calculateDistance_sym\<close>), not of the code's doubles. At the valid pair (12, 0) and
  (-12, -180) the haversine term is exactly 1 in exact arithmetic; in doubles it comes
  out as 1.0000000000000002, the code does not clamp it, \<^verbatim>\<open>Math.sqrt(1 - a)\<close> is NaN
  and the distance is NaN, which equals no distance, itself included.
\<close>

lemma calculateDistance_haversineTerm:
  "calculateDistance lat1 lon1 lat2 lon2 =
     6371 * (2 * atan2 (sqrt (haversineTerm lat1 lon1 lat2 lon2))
                       (sqrt (1 - haversineTerm lat1 lon1 lat2 lon2)))"
  by (simp add: calculateDistance_def haversineTerm_def Let_def)

lemma antipodal_term_is_one: "haversineTerm 12 0 (- 12) (- 180) = 1"
proof -
  have r: "toRad (- 12 - 12) / 2 = - toRad 12" "toRad (- 180 - 0) / 2 = - (pi / 2)"
    "toRad (- 12) = - toRad 12"
    by (simp_all add: toRad_def)
  have "sin (toRad 12) * sin (toRad 12) + cos (toRad 12) * cos (toRad 12) = 1"
    using sin_cos_squared_add [of "toRad 12"] by (simp add: power2_eq_square)
  then show ?thesis
    unfolding haversineTerm_def r by simp
qed

subsection \<open>The order optimizer\<close>

lemma set_splice1: "set (splice1 i xs) \<subseteq> set xs"
  by (auto simp: splice1_def dest: in_set_takeD in_set_dropD)

lemma mset_splice1: "i < length xs \<Longrightarrow> add_mset (xs ! i) (mset (splice1 i xs)) = mset xs"
proof -
  assume "i < length xs"
  then have "xs = take i xs @ xs ! i # drop (Suc i) xs"
    by (rule id_take_nth_drop)
  then have "mset xs = mset (take i xs @ xs ! i # drop (Suc i) xs)" by simp
  then show ?thesis by (simp add: splice1_def)
qed

lemma findIndex_None: "findIndex P xs = None \<longleftrightarrow> (\<forall>x\<in>set xs. \<not> P x)"
  by (induction xs) auto

lemma appendRemaining_mset:
  "mset (appendRemaining result unvisited current) = mset result + mset unvisited"
proof (induction result unvisited current rule: appendRemaining.induct)
  case (1 result unvisited current)
  show ?case
  proof (cases "unvisited = []")
    case True
    then show ?thesis by simp
  next
    case False
    then have lt: "nearestIndex current unvisited < length unvisited"
      by (rule nearestIndex_less)
    show ?thesis
      using False "1.IH" [OF False] mset_splice1 [OF lt]
      by (subst appendRemaining.simps) (simp del: appendRemaining.simps)
  qed
qed

lemma placeStep_preserves:
  assumes ids: "\<forall>l\<in>set destinations. \<forall>u\<in>set destinations.
                  locked l \<and> \<not> locked u \<longrightarrow> dest_id u \<noteq> dest_id l"
    and k: "k < length destinations"
    and inv: "placeInv destinations k st"
  shows "placeInv destinations (Suc k) (placeStep destinations k st)"
proof -
  obtain r u c where st: "st = (r, u, c)" by (cases st)
  from inv st have len: "length r = k"
    and pin: "\<forall>i<k. locked (destinations ! i) \<longrightarrow> r ! i = destinations ! i"
    and lu: "length u = length (filter (\<lambda>d. \<not> locked d) (drop k destinations))"
    and su: "set u \<subseteq> set (filter (\<lambda>d. \<not> locked d) destinations)"
    and ms: "mset r + mset u = mset (filter locked (take k destinations)) +
               mset (filter (\<lambda>d. \<not> locked d) destinations)"
    by (simp_all add: placeInv_def)
  have dk: "drop k destinations = destinations ! k # drop (Suc k) destinations"
    using k by (simp add: Cons_nth_drop_Suc)
  have tk: "take (Suc k) destinations = take k destinations @ [destinations ! k]"
    using k by (simp add: take_Suc_conv_app_nth)
  have mem: "destinations ! k \<in> set destinations"
    using k by simp
  show ?thesis
  proof (cases "locked (destinations ! k)")
    case True
    have "\<forall>x\<in>set u. dest_id x \<noteq> dest_id (destinations ! k)"
      using su ids mem True by auto
    then have none: "findIndex (\<lambda>d. dest_id d = dest_id (destinations ! k)) u = None"
      by (simp add: findIndex_None)
    have step: "placeStep destinations k st =
        (r @ [destinations ! k], u, location (destinations ! k))"
      using True none by (simp add: placeStep_def st Let_def)
    have pin': "\<forall>i<Suc k. locked (destinations ! i) \<longrightarrow>
        (r @ [destinations ! k]) ! i = destinations ! i"
      using pin len by (auto simp: nth_append less_Suc_eq)
    show ?thesis
      unfolding step placeInv_def
      using len pin' lu su ms True by (simp add: dk tk)
  next
    case False
    then have "0 < length u"
      using lu by (simp add: dk)
    then have ne: "u \<noteq> []" by auto
    then have lt: "nearestIndex c u < length u"
      by (rule nearestIndex_less)
    define j where "j = nearestIndex c u"
    have step: "placeStep destinations k st = (r @ [u ! j], splice1 j u, location (u ! j))"
      using False ne by (simp add: placeStep_def st Let_def j_def)
    have pin': "\<forall>i<Suc k. locked (destinations ! i) \<longrightarrow> (r @ [u ! j]) ! i = destinations ! i"
      using pin len False by (auto simp: nth_append less_Suc_eq)
    have lu': "length (splice1 j u) = length (filter (\<lambda>d. \<not> locked d) (drop (Suc k) destinations))"
      using lt False lu by (simp add: length_splice1 j_def dk)
    have su': "set (splice1 j u) \<subseteq> set (filter (\<lambda>d. \<not> locked d) destinations)"
      using set_splice1 [of j u] su by blast
    have "mset (r @ [u ! j]) + mset (splice1 j u) = mset r + mset u"
      using mset_splice1 [of j u] lt by (simp add: j_def)
    then have ms': "mset (r @ [u ! j]) + mset (splice1 j u) =
        mset (filter locked (take (Suc k) destinations)) +
        mset (filter (\<lambda>d. \<not> locked d) destinations)"
      using ms False by (simp add: tk)
    show ?thesis
      unfolding step placeInv_def
      using len pin' lu' su' ms' by simp
  qed
qed

lemma placeLoop_inv:
  assumes ids: "\<forall>l\<in>set destinations. \<forall>u\<in>set destinations.
                  locked l \<and> \<not> locked u \<longrightarrow> dest_id u \<noteq> dest_id l"
    and k: "k \<le> length destinations"
  shows "placeInv destinations k
           (fold (placeStep destinations) [0..<k]
              ([], filter (\<lambda>d. \<not> locked d) destinations, start))"
  using k
proof (induction k)
  case 0
  then show ?case by (simp add: placeInv_def)
next
  case (Suc k)
  then have "placeInv destinations k
           (fold (placeStep destinations) [0..<k]
              ([], filter (\<lambda>d. \<not> locked d) destinations, start))" by simp
  from placeStep_preserves [OF ids _ this] Suc.prems
  show ?case by simp
qed

lemma findOptimalOrder_pins_and_permutes:
  assumes ids: "\<forall>l\<in>set destinations. \<forall>u\<in>set destinations.
                  locked l \<and> \<not> locked u \<longrightarrow> dest_id u \<noteq> dest_id l"
  shows "length (findOptimalOrder start destinations returnToStart) = length destinations \<and>
         (\<forall>i<length destinations. locked (destinations ! i) \<longrightarrow>
            findOptimalOrder start destinations returnToStart ! i = destinations ! i) \<and>
         mset (findOptimalOrder start destinations returnToStart) = mset destinations"
proof (cases "length (filter (\<lambda>d. \<not> locked d) destinations) \<le> 1")
  case True
  then show ?thesis by (simp add: findOptimalOrder_def)
next
  case False
  obtain r u c where st: "fold (placeStep destinations) [0..<length destinations]
              ([], filter (\<lambda>d. \<not> locked d) destinations, start) = (r, u, c)"
    by (cases "fold (placeStep destinations) [0..<length destinations]
              ([], filter (\<lambda>d. \<not> locked d) destinations, start)")
  from placeLoop_inv [OF ids, of "length destinations" start] st
  have inv: "placeInv destinations (length destinations) (r, u, c)" by simp
  then have "u = []" by (simp add: placeInv_def)
  then have out: "findOptimalOrder start destinations returnToStart = r"
    using False st by (simp add: findOptimalOrder_def)
  have "mset (filter locked destinations) + mset (filter (\<lambda>d. \<not> locked d) destinations)
      = mset destinations"
    by (induction destinations) auto
  then show ?thesis
    using inv \<open>u = []\<close> unfolding out placeInv_def by simp
qed

text \<open>
  C1: every locked destination appears in the output of \<open>findOptimalOrder\<close> at the index
  it has in the input. The destinations carry the session's identifiers, which are
  pairwise distinct (\<^verbatim>\<open>addDestination\<close> assigns \<^verbatim>\<open>++destinationCounter\<close>).
\<close>

theorem locked_stops_keep_index:
  assumes "distinct (map dest_id destinations)"
    and "i < length destinations"
    and "locked (destinations ! i)"
  shows "i < length (findOptimalOrder start destinations returnToStart) \<and>
         findOptimalOrder start destinations returnToStart ! i = destinations ! i"
proof -
  have "inj_on dest_id (set destinations)"
    using assms(1) by (simp add: distinct_map)
  then have "\<forall>l\<in>set destinations. \<forall>u\<in>set destinations.
                  locked l \<and> \<not> locked u \<longrightarrow> dest_id u \<noteq> dest_id l"
    by (auto dest: inj_onD)
  from findOptimalOrder_pins_and_permutes [OF this, of start returnToStart] assms(2,3)
  show ?thesis by simp
qed

theorem locked_stops_keep_index_witness:
  "1 < length (findOptimalOrder \<lparr>lat = 0, lng = 0\<rparr>
        [\<lparr>dest_id = 1, address = ''A'', location = \<lparr>lat = 1, lng = 0\<rparr>, locked = False\<rparr>,
         \<lparr>dest_id = 2, address = ''B'', location = \<lparr>lat = 5, lng = 5\<rparr>, locked = True\<rparr>,
         \<lparr>dest_id = 3, address = ''C'', location = \<lparr>lat = 2, lng = 0\<rparr>, locked = False\<rparr>]
        False) \<and>
   findOptimalOrder \<lparr>lat = 0, lng = 0\<rparr>
        [\<lparr>dest_id = 1, address = ''A'', location = \<lparr>lat = 1, lng = 0\<rparr>, locked = False\<rparr>,
         \<lparr>dest_id = 2, address = ''B'', location = \<lparr>lat = 5, lng = 5\<rparr>, locked = True\<rparr>,
         \<lparr>dest_id = 3, address = ''C'', location = \<lparr>lat = 2, lng = 0\<rparr>, locked = False\<rparr>]
        False ! 1
     = \<lparr>dest_id = 2, address = ''B'', location = \<lparr>lat = 5, lng = 5\<rparr>, locked = True\<rparr>"
  using locked_stops_keep_index [of
        "[\<lparr>dest_id = 1, address = ''A'', location = \<lparr>lat = 1, lng = 0\<rparr>, locked = False\<rparr>,
          \<lparr>dest_id = 2, address = ''B'', location = \<lparr>lat = 5, lng = 5\<rparr>, locked = True\<rparr>,
          \<lparr>dest_id = 3, address = ''C'', location = \<lparr>lat = 2, lng = 0\<rparr>, locked = False\<rparr>]"
        1 "\<lparr>lat = 0, lng = 0\<rparr>" False]
  by simp

text \<open>
  C7: with no locked destination and at least two (unlocked) destinations, the output of
  \<open>findOptimalOrder\<close> is a permutation of the input: as multisets they are equal, so no
  destination is added, removed or duplicated.
\<close>

theorem unlocked_order_is_permutation:
  assumes "\<forall>d\<in>set destinations. \<not> locked d"
    and "2 \<le> length destinations"
  shows "mset (findOptimalOrder start destinations returnToStart) = mset destinations"
proof -
  have "\<forall>l\<in>set destinations. \<forall>u\<in>set destinations.
                  locked l \<and> \<not> locked u \<longrightarrow> dest_id u \<noteq> dest_id l"
    using assms(1) by blast
  from findOptimalOrder_pins_and_permutes [OF this, of start returnToStart]
  show ?thesis by simp
qed

theorem unlocked_order_is_permutation_witness:
  "mset (findOptimalOrder \<lparr>lat = 0, lng = 0\<rparr>
        [\<lparr>dest_id = 1, address = ''A'', location = \<lparr>lat = 2, lng = 0\<rparr>, locked = False\<rparr>,
         \<lparr>dest_id = 2, address = ''B'', location = \<lparr>lat = 1, lng = 0\<rparr>, locked = False\<rparr>]
        True)
   = mset
        [\<lparr>dest_id = 1, address = ''A'', location = \<lparr>lat = 2, lng = 0\<rparr>, locked = False\<rparr>,
         \<lparr>dest_id = 2, address = ''B'', location = \<lparr>lat = 1, lng = 0\<rparr>, locked = False\<rparr>]"
  using unlocked_order_is_permutation [of
        "[\<lparr>dest_id = 1, address = ''A'', location = \<lparr>lat = 2, lng = 0\<rparr>, locked = False\<rparr>,
          \<lparr>dest_id = 2, address = ''B'', location = \<lparr>lat = 1, lng = 0\<rparr>, locked = False\<rparr>]"
        "\<lparr>lat = 0, lng = 0\<rparr>" True]
  by simp

subsection \<open>Validation fails fast\<close>

lemma validateFrom_Valid_iff:
  "validateFrom i wps = Valid \<longleftrightarrow> \<not> list_ex badWaypoint wps"
proof (induction wps arbitrary: i)
  case Nil
  then show ?case by simp
next
  case (Cons wp wps)
  show ?case
  proof (cases wp)
    case None
    then show ?thesis by (simp add: badWaypoint_def)
  next
    case (Some w)
    show ?thesis
    proof (cases "wp_lat w")
      case NotOfTypeNumber
      then show ?thesis using Some by (simp add: badWaypoint_def badCoordinate_def)
    next
      case (Number la)
      note la = this
      show ?thesis
      proof (cases "wp_lng w")
        case NotOfTypeNumber
        then show ?thesis using Some la by (simp add: badWaypoint_def badCoordinate_def)
      next
        case (Number lo)
        then show ?thesis
          using Some la Cons.IH [of "Suc i"]
          by (cases la; cases lo) (auto simp: badWaypoint_def badCoordinate_def)
      qed
    qed
  qed
qed

lemma validateWaypoints_Valid_iff:
  "validateWaypoints waypoints = Valid \<longleftrightarrow> \<not> mustBeRejected waypoints"
  by (auto simp: validateWaypoints_def mustBeRejected_def validateFrom_Valid_iff
      split: option.splits)

text \<open>
  C4: a waypoint list with fewer than two entries, or with a waypoint whose latitude or
  longitude is non-numeric, NaN or out of range, makes \<open>calculateRoute\<close> throw the
  validation error at once: no request, no pause, no probe and no toast precedes it (the
  trace is empty), whatever the options (\<open>useFallback\<close> included) and the network.
\<close>

theorem invalid_waypoints_fail_fast:
  assumes "mustBeRejected waypoints"
  shows "\<exists>e. validateWaypoints waypoints = Invalid e \<and>
             calculateRoute env waypoints opts = (Inl (ValidationFailed e), [])"
proof -
  from assms have "validateWaypoints waypoints \<noteq> Valid"
    by (simp add: validateWaypoints_Valid_iff)
  then obtain e where "validateWaypoints waypoints = Invalid e"
    by (cases "validateWaypoints waypoints") auto
  then show ?thesis
    by (simp add: calculateRoute_def Let_def)
qed

theorem invalid_waypoints_fail_fast_witness:
  "calculateRoute \<lparr>online = True, route_fetch = (\<lambda>s k. AbortError), probe_ok = True\<rparr>
     (Some [Some \<lparr>wp_lat = Number (Finite 0), wp_lng = Number (Finite 0)\<rparr>,
            Some \<lparr>wp_lat = Number (Finite 91), wp_lng = Number (Finite 0)\<rparr>])
     \<lparr>opt_maxRetries = None, opt_useFallback = Some True\<rparr>
   = (Inl (ValidationFailed (CoordinatesOutOfRange 2)), [])"
proof -
  have h: "mustBeRejected
     (Some [Some \<lparr>wp_lat = Number (Finite 0), wp_lng = Number (Finite 0)\<rparr>,
            Some \<lparr>wp_lat = Number (Finite 91), wp_lng = Number (Finite 0)\<rparr>])"
    by (simp add: mustBeRejected_def badWaypoint_def badCoordinate_def)
  have v: "validateWaypoints
     (Some [Some \<lparr>wp_lat = Number (Finite 0), wp_lng = Number (Finite 0)\<rparr>,
            Some \<lparr>wp_lat = Number (Finite 91), wp_lng = Number (Finite 0)\<rparr>])
    = Invalid (CoordinatesOutOfRange 2)"
    by (simp add: validateWaypoints_def)
  from invalid_waypoints_fail_fast [OF h] v show ?thesis
    by auto
qed

subsection \<open>Retries and failover\<close>

lemma retryLoop_all_retryable:
  assumes "\<forall>k. tryRouteServer (route_fetch env s k) = Failure True (msg k)"
  shows "retryLoop env s coords m a (errors, trace) =
           (None,
            errors @ map (\<lambda>k. \<lparr>server = s, attempt_no = k + 1, error = msg k\<rparr>) [a..<Suc m],
            trace @ concat (map (attemptEffects s coords m) [a..<Suc m]))"
proof (induction "Suc m - a" arbitrary: a errors trace)
  case 0
  then show ?case
    by (subst retryLoop.simps) simp
next
  case (Suc n)
  then have le: "a \<le> m" and n: "n = Suc m - Suc a" by simp_all
  have up: "[a..<Suc m] = a # [Suc a..<Suc m]"
    using le by (simp add: upt_conv_Cons)
  have step: "retryLoop env s coords m a (errors, trace) =
      retryLoop env s coords m (Suc a)
        (errors @ [\<lparr>server = s, attempt_no = a + 1, error = msg a\<rparr>],
         trace @ attemptEffects s coords m a)"
    using assms le by (subst retryLoop.simps) (simp add: attemptEffects_def)
  show ?case
    unfolding step Suc.hyps(1) [OF n] up by simp
qed

lemma requestsTo_append [simp]:
  "requestsTo s (xs @ ys) = requestsTo s xs + requestsTo s ys"
  by (simp add: requestsTo_def)

lemma requestsTo_attempts:
  "requestsTo s' (concat (map (attemptEffects s coords m) ks)) =
     (if s' = s then length ks else 0)"
proof (induction ks)
  case Nil
  then show ?case by (simp add: requestsTo_def)
next
  case (Cons k ks)
  have "requestsTo s' (attemptEffects s coords m k) = (if s' = s then 1 else 0)"
    by (simp add: requestsTo_def attemptEffects_def)
  with Cons show ?case by simp
qed

lemma network_failure_retryable:
  assumes "tryRouteServer outcome = Failure b e"
    and "e = ''Network error'' \<or> e = ''Request timed out''"
  shows "b"
proof (cases outcome)
  case AbortError
  then show ?thesis using assms by (simp add: tryRouteServer_def)
next
  case (TypeError x2)
  then show ?thesis using assms by (simp add: tryRouteServer_def)
next
  case (OtherError x3)
  then show ?thesis using assms by (simp add: tryRouteServer_def)
next
  case (Response status data)
  then show ?thesis using assms
    by (auto simp: tryRouteServer_def split: if_splits)
qed

lemma servers: "ROUTING_SERVERS = [primaryServer, secondaryServer]"
  by (simp add: ROUTING_SERVERS_def primaryServer_def secondaryServer_def)

lemma servers_differ: "primaryServer \<noteq> secondaryServer"
  by (simp add: ROUTING_SERVERS_def primaryServer_def secondaryServer_def)

text \<open>
  C2: when every attempt on the primary provider times out (a retryable failure) and the
  first attempt on the secondary provider succeeds, \<open>calculateRoute\<close> returns the
  secondary provider's duration, distance and geometry, not tagged as fallback; it has
  sent exactly \<open>maxRetries + 1\<close> requests to the primary provider (3 with the default
  \<open>maxRetries = 2\<close>) and one, the last effect of the call, to the secondary.
\<close>

theorem failover_to_secondary:
  assumes valid: "validateWaypoints (Some wps) = Valid"
    and on: "online env"
    and primary: "\<forall>k. route_fetch env primaryServer k = AbortError"
    and secondary: "tryRouteServer (route_fetch env secondaryServer 0) = Success d"
  shows "fst (calculateRoute env (Some wps) opts) =
           Inr \<lparr>duration = duration d, distance = distance d, geometry = geometry d,
                isFallback = False\<rparr> \<and>
         requestsTo primaryServer (snd (calculateRoute env (Some wps) opts)) =
           (case opt_maxRetries opts of None \<Rightarrow> 2 | Some n \<Rightarrow> n) + 1 \<and>
         requestsTo secondaryServer (snd (calculateRoute env (Some wps) opts)) = 1 \<and>
         last (snd (calculateRoute env (Some wps) opts)) =
           Request secondaryServer (map toLocation wps)"
proof -
  define m where "m = (case opt_maxRetries opts of None \<Rightarrow> 2 | Some n \<Rightarrow> n)"
  define coords where "coords = map toLocation wps"
  define E where "E = map (\<lambda>k. \<lparr>server = primaryServer, attempt_no = k + 1,
                                   error = ''Request timed out''\<rparr>) [0..<Suc m]"
  define T where "T = concat (map (attemptEffects primaryServer coords m) [0..<Suc m])"
  have "\<forall>k. tryRouteServer (route_fetch env primaryServer k) =
              Failure True ((\<lambda>k. ''Request timed out'') k)"
    using primary by (simp add: tryRouteServer_def)
  from retryLoop_all_retryable [OF this, of coords m 0 "[]" "[]"]
  have first: "retryLoop env primaryServer coords m 0 ([], []) = (None, E, T)"
    by (simp add: E_def T_def)
  have second: "retryLoop env secondaryServer coords m 0 (E, T) =
      (Some d, E, T @ [Request secondaryServer coords])"
    using secondary by (subst retryLoop.simps) simp
  have loop: "serverLoop env ROUTING_SERVERS coords m ([], []) =
      (Some d, E, T @ [Request secondaryServer coords])"
    by (simp add: servers first second)
  have out: "calculateRoute env (Some wps) opts =
      (Inr (providerRoute d), T @ [Request secondaryServer coords])"
    using valid on loop
    by (simp add: calculateRoute_def Let_def m_def [symmetric] coords_def [symmetric])
  have "requestsTo primaryServer T = m + 1"
    unfolding T_def requestsTo_attempts by simp
  moreover have "requestsTo secondaryServer T = 0"
    unfolding T_def requestsTo_attempts using servers_differ by simp
  moreover have "requestsTo primaryServer [Request secondaryServer coords] = 0"
    "requestsTo secondaryServer [Request secondaryServer coords] = 1"
    using servers_differ by (simp_all add: requestsTo_def)
  ultimately show ?thesis
    unfolding out by (simp add: providerRoute_def m_def coords_def)
qed

theorem failover_to_secondary_witness:
  "fst (calculateRoute
          \<lparr>online = True,
           route_fetch = (\<lambda>s k. if s = secondaryServer
              then Response 200 \<lparr>code = ''Ok'', routes =
                     [\<lparr>duration = 600, distance = 5000,
                       geometry = LineString [(0, 0), (1, 1)]\<rparr>]\<rparr>
              else AbortError),
           probe_ok = True\<rparr>
          (Some [Some \<lparr>wp_lat = Number (Finite 0), wp_lng = Number (Finite 0)\<rparr>,
                 Some \<lparr>wp_lat = Number (Finite 1), wp_lng = Number (Finite 1)\<rparr>])
          \<lparr>opt_maxRetries = None, opt_useFallback = None\<rparr>) =
     Inr \<lparr>duration = 600, distance = 5000, geometry = LineString [(0, 0), (1, 1)],
          isFallback = False\<rparr> \<and>
   requestsTo primaryServer (snd (calculateRoute
          \<lparr>online = True,
           route_fetch = (\<lambda>s k. if s = secondaryServer
              then Response 200 \<lparr>code = ''Ok'', routes =
                     [\<lparr>duration = 600, distance = 5000,
                       geometry = LineString [(0, 0), (1, 1)]\<rparr>]\<rparr>
              else AbortError),
           probe_ok = True\<rparr>
          (Some [Some \<lparr>wp_lat = Number (Finite 0), wp_lng = Number (Finite 0)\<rparr>,
                 Some \<lparr>wp_lat = Number (Finite 1), wp_lng = Number (Finite 1)\<rparr>])
          \<lparr>opt_maxRetries = None, opt_useFallback = None\<rparr>)) = 3"
proof -
  let ?env = "\<lparr>online = True,
           route_fetch = (\<lambda>s k. if s = secondaryServer
              then Response 200 \<lparr>code = ''Ok'', routes =
                     [\<lparr>duration = 600, distance = 5000,
                       geometry = LineString [(0, 0), (1, 1)]\<rparr>]\<rparr>
              else AbortError),
           probe_ok = True\<rparr>"
  let ?wps = "[Some \<lparr>wp_lat = Number (Finite 0), wp_lng = Number (Finite 0)\<rparr>,
                 Some \<lparr>wp_lat = Number (Finite 1), wp_lng = Number (Finite 1)\<rparr>]"
  have v: "validateWaypoints (Some ?wps) = Valid"
    by (simp add: validateWaypoints_def)
  have on: "online ?env" by simp
  have p: "\<forall>k. route_fetch ?env primaryServer k = AbortError"
    using servers_differ by simp
  have s: "tryRouteServer (route_fetch ?env secondaryServer 0) =
      Success \<lparr>duration = 600, distance = 5000, geometry = LineString [(0, 0), (1, 1)]\<rparr>"
    by (simp add: tryRouteServer_def)
  from failover_to_secondary [OF v on p s, of "\<lparr>opt_maxRetries = None, opt_useFallback = None\<rparr>"]
  show ?thesis by simp
qed

subsection \<open>The fallback estimate\<close>

lemma fallback_fold:
  "n \<le> length w \<Longrightarrow>
   fold (fallbackStep w) [0..<n] (0, []) =
     ((\<Sum>k = 1..<n. calculateDistance (lat (w ! (k - 1))) (lng (w ! (k - 1)))
                       (lat (w ! k)) (lng (w ! k))) * 1000,
      map (\<lambda>p. (lng p, lat p)) (take n w))"
proof (induction n)
  case 0
  then show ?case by simp
next
  case (Suc n)
  then have IH: "fold (fallbackStep w) [0..<n] (0, []) =
     ((\<Sum>k = 1..<n. calculateDistance (lat (w ! (k - 1))) (lng (w ! (k - 1)))
                       (lat (w ! k)) (lng (w ! k))) * 1000,
      map (\<lambda>p. (lng p, lat p)) (take n w))"
    and n: "n < length w" by simp_all
  have unroll: "fold (fallbackStep w) [0..<Suc n] (0, []) =
      fallbackStep w n (fold (fallbackStep w) [0..<n] (0, []))"
    by simp
  show ?case
  proof (cases "n = 0")
    case True
    then show ?thesis
      using n unfolding unroll IH by (simp add: fallbackStep_def take_Suc_conv_app_nth)
  next
    case False
    then have "{1..<Suc n} = insert n {1..<n}" by auto
    then show ?thesis
      using n False unfolding unroll IH
      by (simp add: fallbackStep_def take_Suc_conv_app_nth algebra_simps)
  qed
qed

lemma calculateFallbackRoute_eq:
  "calculateFallbackRoute w =
     \<lparr>duration = totalStraightLineKm w / 50 * 3600,
      distance = totalStraightLineKm w * 1000,
      geometry = LineString (map (\<lambda>p. (lng p, lat p)) w),
      isFallback = True\<rparr>"
  using fallback_fold [of "length w" w]
  by (simp add: calculateFallbackRoute_def totalStraightLineKm_def)

lemma serverLoop_all_network:
  assumes "\<forall>s\<in>set servers. \<forall>k. networkClass (tryRouteServer (route_fetch env s k))"
    and "list_all (\<lambda>e. error e = ''Network error'' \<or> error e = ''Request timed out'') errors"
  shows "\<exists>errors' trace'.
           serverLoop env servers coords m (errors, trace) = (None, errors', trace') \<and>
           list_all (\<lambda>e. error e = ''Network error'' \<or> error e = ''Request timed out'') errors'"
  using assms
proof (induction servers arbitrary: errors trace)
  case Nil
  then show ?case by simp
next
  case (Cons s servers)
  define msg where "msg k = (case tryRouteServer (route_fetch env s k) of
                               Failure b e \<Rightarrow> e | Success d \<Rightarrow> [])" for k
  have cls: "networkClass (tryRouteServer (route_fetch env s k))" for k
    using Cons.prems(1) by simp
  have net: "msg k = ''Network error'' \<or> msg k = ''Request timed out''" for k
    using cls [of k]
    by (cases "tryRouteServer (route_fetch env s k)") (simp_all add: msg_def networkClass_def)
  have "tryRouteServer (route_fetch env s k) = Failure True (msg k)" for k
  proof (cases "tryRouteServer (route_fetch env s k)")
    case (Success d)
    then show ?thesis using cls [of k] by (simp add: networkClass_def)
  next
    case (Failure b e)
    then have "e = msg k" by (simp add: msg_def)
    with Failure net [of k] network_failure_retryable [OF Failure] show ?thesis by simp
  qed
  then have "\<forall>k. tryRouteServer (route_fetch env s k) = Failure True (msg k)" by simp
  note step = retryLoop_all_retryable [OF this, of coords m 0 errors trace]
  have "list_all (\<lambda>e. error e = ''Network error'' \<or> error e = ''Request timed out'')
          (errors @ map (\<lambda>k. \<lparr>server = s, attempt_no = k + 1, error = msg k\<rparr>) [0..<Suc m])"
  proof -
    have "\<forall>k. msg k = ''Network error'' \<or> msg k = ''Request timed out''"
      using net by blast
    then show ?thesis
      using Cons.prems(2) unfolding list_all_iff by (auto simp del: upt_Suc)
  qed
  from Cons.IH [OF _ this] Cons.prems(1)
  show ?case
    unfolding serverLoop.simps step by simp
qed

text \<open>
  C3: when every attempt on every provider records a network or timeout error, the
  connectivity probe fails and fallback is enabled (the default), \<open>calculateRoute\<close>
  returns the fallback estimate: tagged \<open>isFallback\<close>, its distance the cumulative
  straight-line distance over consecutive waypoints in meters, its duration
  (total straight-line km / 50) * 3600 seconds, its geometry the straight line through
  all waypoints.
\<close>

theorem network_failure_gives_fallback:
  assumes valid: "validateWaypoints (Some wps) = Valid"
    and fb: "opt_useFallback opts \<noteq> Some False"
    and net: "\<forall>s\<in>set ROUTING_SERVERS. \<forall>k.
                networkClass (tryRouteServer (route_fetch env s k))"
    and probe: "\<not> probe_ok env"
  shows "fst (calculateRoute env (Some wps) opts) =
           Inr \<lparr>duration = totalStraightLineKm (map toLocation wps) / 50 * 3600,
                distance = totalStraightLineKm (map toLocation wps) * 1000,
                geometry = LineString (map (\<lambda>p. (lng p, lat p)) (map toLocation wps)),
                isFallback = True\<rparr>"
proof -
  define m where "m = (case opt_maxRetries opts of None \<Rightarrow> 2 | Some n \<Rightarrow> n)"
  define coords where "coords = map toLocation wps"
  have uf: "(case opt_useFallback opts of None \<Rightarrow> True | Some b \<Rightarrow> b)"
    using fb by (cases "opt_useFallback opts") simp_all
  show ?thesis
  proof (cases "online env")
    case False
    then show ?thesis
      using valid uf by (simp add: calculateRoute_def Let_def calculateFallbackRoute_eq)
  next
    case True
    from serverLoop_all_network [OF net, of "[]" coords m "[]"]
    obtain errors trace where
      loop: "serverLoop env ROUTING_SERVERS coords m ([], []) = (None, errors, trace)"
      and cls: "list_all (\<lambda>e. error e = ''Network error'' \<or> error e = ''Request timed out'') errors"
      by auto
    have "fst (analyseFailure env coords True errors trace) = Inr (calculateFallbackRoute coords)"
      using cls probe by (simp add: analyseFailure_def)
    then show ?thesis
      using valid uf True loop
      by (simp add: calculateRoute_def Let_def m_def [symmetric] coords_def [symmetric]
          calculateFallbackRoute_eq)
  qed
qed

theorem network_failure_gives_fallback_witness:
  "fst (calculateRoute
          \<lparr>online = True, route_fetch = (\<lambda>s k. if k = 0 then AbortError else TypeError ''Failed to fetch''),
           probe_ok = False\<rparr>
          (Some [Some \<lparr>wp_lat = Number (Finite 0), wp_lng = Number (Finite 0)\<rparr>,
                 Some \<lparr>wp_lat = Number (Finite 1), wp_lng = Number (Finite 1)\<rparr>])
          \<lparr>opt_maxRetries = None, opt_useFallback = Some True\<rparr>) =
     Inr \<lparr>duration = calculateDistance 0 0 1 1 / 50 * 3600,
          distance = calculateDistance 0 0 1 1 * 1000,
          geometry = LineString [(0, 0), (1, 1)],
          isFallback = True\<rparr>"
proof -
  let ?env = "\<lparr>online = True, route_fetch = (\<lambda>s k. if k = 0 then AbortError else TypeError ''Failed to fetch''),
           probe_ok = False\<rparr>"
  let ?wps = "[Some \<lparr>wp_lat = Number (Finite 0), wp_lng = Number (Finite 0)\<rparr>,
                 Some \<lparr>wp_lat = Number (Finite 1), wp_lng = Number (Finite 1)\<rparr>]"
  have v: "validateWaypoints (Some ?wps) = Valid"
    by (simp add: validateWaypoints_def)
  have fb: "opt_useFallback \<lparr>opt_maxRetries = None, opt_useFallback = Some True\<rparr> \<noteq> Some False"
    by simp
  have n: "\<forall>s\<in>set ROUTING_SERVERS. \<forall>k. networkClass (tryRouteServer (route_fetch ?env s k))"
    by (simp add: networkClass_def tryRouteServer_def)
  have p: "\<not> probe_ok ?env" by simp
  from network_failure_gives_fallback [OF v fb n p]
  show ?thesis
    by (simp add: totalStraightLineKm_def toLocation_def)
qed

subsection \<open>The summary and the two-point estimator\<close>

text \<open>
  C9: the time saved that \<open>displayResults\<close> reports is
  max(0, baseline duration - optimized duration): the difference when the optimized route
  is not slower, 0 otherwise, and never negative.
\<close>

theorem time_saved_floored:
  "timeSaved (displayResults optimizedOrder optimizedRoute originalRoute) =
     max 0 (duration originalRoute - duration optimizedRoute) \<and>
   timeSaved (displayResults optimizedOrder optimizedRoute originalRoute) =
     (if duration optimizedRoute \<le> duration originalRoute
      then duration originalRoute - duration optimizedRoute else 0) \<and>
   0 \<le> timeSaved (displayResults optimizedOrder optimizedRoute originalRoute)"
  by (simp add: displayResults_def max_def)

lemma tryEstimate_None: "tryEstimate outcome = None \<longleftrightarrow> \<not> providerAnswers outcome"
  by (cases outcome) (auto simp: tryEstimate_def providerAnswers_def)

lemma estimateLoop_None:
  "estimateLoop fetch servers = None \<longleftrightarrow> (\<forall>s\<in>set servers. \<not> providerAnswers (fetch s))"
proof (induction servers)
  case Nil
  then show ?case by simp
next
  case (Cons s servers)
  show ?case
  proof (cases "tryEstimate (fetch s)")
    case None
    then have "\<not> providerAnswers (fetch s)" by (simp add: tryEstimate_None)
    with None Cons show ?thesis by simp
  next
    case (Some t)
    then have "providerAnswers (fetch s)"
      using tryEstimate_None [of "fetch s"] by auto
    with Some show ?thesis by auto
  qed
qed

lemma estimateLoop_Some:
  "estimateLoop fetch servers = Some t \<Longrightarrow> \<not> isEstimate t"
  by (induction servers) (auto simp: tryEstimate_def split: option.splits fetch_outcome.splits if_splits)

text \<open>
  C10: \<open>estimateDrivingTime\<close> yields a value for every pair of coordinates and every
  behaviour of the network: each exception of a fetch is a caught branch of
  \<open>tryEstimate\<close>, and the function returns an object on every path. When the attempt on
  every provider fails, the value is the straight-line estimate, tagged \<open>isEstimate\<close>,
  with duration (km / 40) * 3600 seconds and distance km * 1000 meters; the route-level
  fallback on the same two points assumes 50 km/h instead.
\<close>

theorem estimate_total_with_fallback:
  assumes "\<forall>s\<in>set ROUTING_SERVERS. \<not> providerAnswers (fetch s)"
  shows "estimateDrivingTime fetch fromLat fromLng toLat toLng =
           \<lparr>duration = (calculateDistance fromLat fromLng toLat toLng / 40) * 3600,
            distance = calculateDistance fromLat fromLng toLat toLng * 1000,
            isEstimate = True\<rparr> \<and>
         duration (calculateFallbackRoute
                     [\<lparr>lat = fromLat, lng = fromLng\<rparr>, \<lparr>lat = toLat, lng = toLng\<rparr>]) =
           (calculateDistance fromLat fromLng toLat toLng / 50) * 3600"
proof -
  have "estimateLoop fetch ROUTING_SERVERS = None"
    using assms by (simp add: estimateLoop_None)
  then show ?thesis
    by (simp add: estimateDrivingTime_def Let_def calculateFallbackRoute_eq
        totalStraightLineKm_def)
qed

theorem estimate_total_with_fallback_witness:
  "estimateDrivingTime (\<lambda>s. if s = primaryServer then AbortError else Response 503 \<lparr>code = [], routes = []\<rparr>)
      10 10 20 20 =
     \<lparr>duration = (calculateDistance 10 10 20 20 / 40) * 3600,
      distance = calculateDistance 10 10 20 20 * 1000,
      isEstimate = True\<rparr>"
proof -
  have "\<forall>s\<in>set ROUTING_SERVERS. \<not> providerAnswers
      ((\<lambda>s. if s = primaryServer then AbortError else Response 503 \<lparr>code = [], routes = []\<rparr>) s)"
    by (simp add: providerAnswers_def servers)
  from estimate_total_with_fallback [OF this, of 10 10 20 20]
  show ?thesis by simp
qed

subsection \<open>Sorting\<close>

lemma set_js_insert: "set (js_insert cmp x ys) = insert x (set ys)"
  by (induction ys) auto

lemma mset_js_insert: "mset (js_insert cmp x ys) = add_mset x (mset ys)"
  by (induction ys) auto

lemma mset_js_sort: "mset (js_sort cmp xs) = mset xs"
  by (induction xs) (simp_all add: js_sort_def mset_js_insert)

lemma set_js_sort: "set (js_sort cmp xs) = set xs"
  using mset_js_sort [of cmp xs] by (metis set_mset_mset)

lemma sorted_js_insert:
  assumes "\<forall>y\<in>set ys. notAfter (cmp x y) = (key x \<le> key y)"
    and "sorted (map key ys)"
  shows "sorted (map key (js_insert cmp x ys))"
  using assms
proof (induction ys)
  case Nil
  then show ?case by simp
next
  case (Cons y ys)
  show ?case
  proof (cases "notAfter (cmp x y)")
    case True
    then have "key x \<le> key y" using Cons.prems(1) by simp
    then show ?thesis
      using True Cons.prems(2) by auto
  next
    case False
    then have "key y \<le> key x" using Cons.prems(1) by simp
    then show ?thesis
      using False Cons by (auto simp: set_js_insert)
  qed
qed

lemma sorted_js_sort:
  assumes "\<forall>x\<in>set xs. \<forall>y\<in>set xs. notAfter (cmp x y) = (key x \<le> key y)"
  shows "sorted (map key (js_sort cmp xs))"
  using assms
proof (induction xs)
  case Nil
  then show ?case by (simp add: js_sort_def)
next
  case (Cons x xs)
  then have IH: "sorted (map key (js_sort cmp xs))" by simp
  have "\<forall>y\<in>set (js_sort cmp xs). notAfter (cmp x y) = (key x \<le> key y)"
    using Cons.prems by (simp add: set_js_sort)
  from sorted_js_insert [of "js_sort cmp xs" cmp x key, OF this IH] show ?case
    by (simp add: js_sort_def)
qed

subsection \<open>Ranking of candidates\<close>

lemma searchLocation_cases:
  assumes "la \<noteq> 0" and "lo \<noteq> 0"
  shows "\<exists>results. searchLocation roundsAboveOne geocoder query (Some la) (Some lo) =
           js_sort (\<lambda>a b. js_minus (sld a) (sld b))
             (map (withStraightLine roundsAboveOne la lo) results)"
proof -
  have ref: "usableReference (Some la) (Some lo) = Some (la, lo)"
    using assms by (simp add: usableReference_def)
  show ?thesis
  proof (cases "geocoder (searchRequest query (Some la) (Some lo))")
    case None
    then have "searchLocation roundsAboveOne geocoder query (Some la) (Some lo) =
        js_sort (\<lambda>a b. js_minus (sld a) (sld b)) (map (withStraightLine roundsAboveOne la lo) [])"
      by (simp add: searchLocation_def js_sort_def)
    then show ?thesis by blast
  next
    case (Some results)
    then have "searchLocation roundsAboveOne geocoder query (Some la) (Some lo) =
        js_sort (\<lambda>a b. js_minus (sld a) (sld b))
          (map (withStraightLine roundsAboveOne la lo) results)"
      by (cases "results = []") (simp_all add: searchLocation_def ref js_sort_def)
    then show ?thesis by blast
  qed
qed

lemma searchLocation_distance:
  assumes "la \<noteq> 0" and "lo \<noteq> 0"
    and "c \<in> set (searchLocation roundsAboveOne geocoder query (Some la) (Some lo))"
  shows "straightLineDistance c =
           Some (calculateDistanceNumber roundsAboveOne la lo (c_lat c) (c_lon c))"
proof -
  from searchLocation_cases [OF assms(1,2)] obtain results where
    "searchLocation roundsAboveOne geocoder query (Some la) (Some lo) =
           js_sort (\<lambda>a b. js_minus (sld a) (sld b))
             (map (withStraightLine roundsAboveOne la lo) results)" by blast
  with assms(3) have "c \<in> set (map (withStraightLine roundsAboveOne la lo) results)"
    by (simp only: set_js_sort)
  then show ?thesis
    by (auto simp: withStraightLine_def)
qed

lemma searchLocation_finite:
  assumes "la \<noteq> 0" and "lo \<noteq> 0"
    and "c \<in> set (searchLocation roundsAboveOne geocoder query (Some la) (Some lo))"
    and "straightLineDistance c \<noteq> Some NaN"
  shows "\<not> roundsAboveOne la lo (c_lat c) (c_lon c) \<and>
         sld c = Finite (distanceFrom la lo c)"
  using searchLocation_distance [OF assms(1,2,3)] assms(4)
  by (auto simp: calculateDistanceNumber_def sld_def distanceFrom_def split: if_splits)

lemma searchLocation_sorted:
  assumes "la \<noteq> 0" and "lo \<noteq> 0"
    and "\<forall>c\<in>set (searchLocation roundsAboveOne geocoder query (Some la) (Some lo)).
           straightLineDistance c \<noteq> Some NaN"
  shows "sorted (map (distanceFrom la lo)
           (searchLocation roundsAboveOne geocoder query (Some la) (Some lo))) \<and>
         viewbox (searchRequest query (Some la) (Some lo)) =
           Some (lo - 0.5, la - 0.5, lo + 0.5, la + 0.5)"
proof -
  have ref: "usableReference (Some la) (Some lo) = Some (la, lo)"
    using assms by (simp add: usableReference_def)
  have box: "viewbox (searchRequest query (Some la) (Some lo)) =
           Some (lo - 0.5, la - 0.5, lo + 0.5, la + 0.5)"
    by (simp add: searchRequest_def ref)
  from searchLocation_cases [OF assms(1,2)] obtain results where
    out: "searchLocation roundsAboveOne geocoder query (Some la) (Some lo) =
           js_sort (\<lambda>a b. js_minus (sld a) (sld b))
             (map (withStraightLine roundsAboveOne la lo) results)" by blast
  have fin: "\<forall>c\<in>set (map (withStraightLine roundsAboveOne la lo) results).
               sld c = Finite (distanceFrom la lo c)"
  proof
    fix c assume "c \<in> set (map (withStraightLine roundsAboveOne la lo) results)"
    then have c: "c \<in> set (searchLocation roundsAboveOne geocoder query (Some la) (Some lo))"
      unfolding out set_js_sort .
    with assms(3) have "straightLineDistance c \<noteq> Some NaN" by blast
    from searchLocation_finite [OF assms(1,2) c this]
    show "sld c = Finite (distanceFrom la lo c)" by simp
  qed
  have "sorted (map (distanceFrom la lo)
          (js_sort (\<lambda>a b. js_minus (sld a) (sld b))
             (map (withStraightLine roundsAboveOne la lo) results)))"
  proof (rule sorted_js_sort, intro ballI)
    fix x y
    assume "x \<in> set (map (withStraightLine roundsAboveOne la lo) results)"
      and "y \<in> set (map (withStraightLine roundsAboveOne la lo) results)"
    with fin have "sld x = Finite (distanceFrom la lo x)" "sld y = Finite (distanceFrom la lo y)"
      by blast+
    then show "notAfter (js_minus (sld x) (sld y)) = (distanceFrom la lo x \<le> distanceFrom la lo y)"
      by simp
  qed
  with box show ?thesis unfolding out by simp
qed


text \<open>
  Where a distance is NaN the comparator returns NaN and nothing orders the list: with
  the candidate Anti at a point where the distance from the reference (10, 10) is NaN,
  the result keeps the geocoder's order, the far candidate before the near one.
\<close>

lemma nan_distance_leaves_list_unsorted:
  "map (\<lambda>c. (display_name c, straightLineDistance c))
     (searchLocation (\<lambda>lat1 lon1 lat2 lon2. lat2 = - 10 \<and> lon2 = - 170)
        (\<lambda>request. Some
           [\<lparr>display_name = ''Far'', c_lat = 10, c_lon = 100, straightLineDistance = None,
             drivingTime = None, drivingDistance = None\<rparr>,
            \<lparr>display_name = ''Anti'', c_lat = - 10, c_lon = - 170, straightLineDistance = None,
             drivingTime = None, drivingDistance = None\<rparr>,
            \<lparr>display_name = ''Near'', c_lat = 10, c_lon = 10, straightLineDistance = None,
             drivingTime = None, drivingDistance = None\<rparr>])
        ''cafe'' (Some 10) (Some 10)) =
     [(''Far'', Some (Finite (calculateDistance 10 10 10 100))),
      (''Anti'', Some NaN),
      (''Near'', Some (Finite 0))] \<and>
   0 < calculateDistance 10 10 10 100"
proof -
  have "0 < sin (pi / 4)"
    by (rule sin_gt_zero) (use pi_gt_zero in simp_all)
  moreover have "0 < cos (toRad 10)"
    by (rule cos_gt_zero_pi) (use pi_gt_zero in \<open>simp_all add: toRad_def\<close>)
  ultimately have "0 < cos (toRad 10) * cos (toRad 10) * sin (pi / 4) * sin (pi / 4)"
    by simp
  then have "0 < sqrt (cos (toRad 10) * cos (toRad 10) * sin (pi / 4) * sin (pi / 4))"
    by simp
  then have pos: "0 < atan2 (sqrt (cos (toRad 10) * cos (toRad 10) * sin (pi / 4) * sin (pi / 4)))
      (sqrt (1 - cos (toRad 10) * cos (toRad 10) * sin (pi / 4) * sin (pi / 4)))"
    by (rule atan2_pos)
  have r: "toRad (100 - 10) / 2 = pi / 4" "toRad (10 - 10) = 0"
    by (simp_all add: toRad_def)
  have "calculateDistance 10 10 10 100 =
      6371 * (2 * atan2 (sqrt (cos (toRad 10) * cos (toRad 10) * sin (pi / 4) * sin (pi / 4)))
      (sqrt (1 - cos (toRad 10) * cos (toRad 10) * sin (pi / 4) * sin (pi / 4))))"
    unfolding calculateDistance_def Let_def r by simp
  then have far: "0 < calculateDistance 10 10 10 100" using pos by simp
  then show ?thesis
    by (simp add: searchLocation_def usableReference_def withStraightLine_def js_sort_def
        sld_def calculateDistanceNumber_def calculateDistance_self)
qed

text \<open>
  C5 fails on the code for a reference point on the equator or on the prime meridian:
  \<^verbatim>\<open>if (nearLat && nearLng)\<close> reads the coordinate 0 as ``no reference point''. With
  the reference (0, 10), a valid coordinate, the request carries no viewbox and the
  results come back in the geocoder's order, the farther one first, whatever the
  machine's rounding. (For a reference with both coordinates non-zero the search is
  biased, and the list is sorted where no distance is NaN: lemma
  \<open>searchLocation_sorted\<close>.)
\<close>

theorem zero_coordinate_reference_ignored:
  "searchLocation roundsAboveOne
     (\<lambda>request. Some
        [\<lparr>display_name = ''Far'', c_lat = 0, c_lon = 100, straightLineDistance = None,
          drivingTime = None, drivingDistance = None\<rparr>,
         \<lparr>display_name = ''Near'', c_lat = 0, c_lon = 10, straightLineDistance = None,
          drivingTime = None, drivingDistance = None\<rparr>])
     ''cafe'' (Some 0) (Some 10) =
     [\<lparr>display_name = ''Far'', c_lat = 0, c_lon = 100, straightLineDistance = None,
       drivingTime = None, drivingDistance = None\<rparr>,
      \<lparr>display_name = ''Near'', c_lat = 0, c_lon = 10, straightLineDistance = None,
       drivingTime = None, drivingDistance = None\<rparr>] \<and>
   calculateDistance 0 10 0 10 < calculateDistance 0 10 0 100 \<and>
   viewbox (searchRequest ''cafe'' (Some 0) (Some 10)) = None"
proof -
  have "0 < sin (pi / 4)"
    by (rule sin_gt_zero) (use pi_gt_zero in simp_all)
  then have "0 < sqrt (sin (pi / 4) * sin (pi / 4))" by simp
  then have pos: "0 < atan2 (sqrt (sin (pi / 4) * sin (pi / 4)))
                       (sqrt (1 - sin (pi / 4) * sin (pi / 4)))"
    by (rule atan2_pos)
  have r: "toRad (100 - 10) / 2 = pi / 4" "toRad (0 - 0) = 0" "toRad 0 = 0"
    by (simp_all add: toRad_def)
  have "calculateDistance 0 10 0 100 =
      6371 * (2 * atan2 (sqrt (sin (pi / 4) * sin (pi / 4)))
                       (sqrt (1 - sin (pi / 4) * sin (pi / 4))))"
    unfolding calculateDistance_def Let_def r by simp
  then have far: "0 < calculateDistance 0 10 0 100" using pos by simp
  have ref: "usableReference (Some 0) (Some 10) = None"
    by (simp add: usableReference_def)
  show ?thesis
    using far by (simp add: searchLocation_def searchRequest_def ref calculateDistance_self)
qed

lemma drivingTime_withDrivingTime:
  assumes "\<not> roundsAboveOne la lo (c_lat (topResults ! i)) (c_lon (topResults ! i))"
  shows "drivingTime (withDrivingTime roundsAboveOne fetches la lo topResults i) =
     Some (Finite (duration (estimateDrivingTime (fetches i) la lo
                     (c_lat (topResults ! i)) (c_lon (topResults ! i)))))"
  using assms by (simp add: withDrivingTime_def Let_def)

lemma sorted_byDrivingTime:
  assumes "\<forall>c\<in>set xs. \<exists>t. drivingTime c = Some (Finite t)"
  shows "sorted (map timeOf (js_sort byDrivingTime xs))"
proof (rule sorted_js_sort, intro ballI)
  fix x y
  assume "x \<in> set xs" and "y \<in> set xs"
  with assms obtain tx ty where "drivingTime x = Some (Finite tx)" "drivingTime y = Some (Finite ty)"
    by blast
  then show "notAfter (byDrivingTime x y) = (timeOf x \<le> timeOf y)"
    by (simp add: byDrivingTime_def timeOf_def)
qed

text \<open>
  C6, as the code has it. Take a reference whose coordinates are both non-zero and a
  search none of whose candidates has the straight-line distance NaN. Then the
  straight-line search returns its candidates sorted by straight-line distance, and
  \<open>searchLocationWithTimes\<close> does not fail on a failed driving-time lookup: every
  candidate it returns carries a driving time that is a number; the returned list is
  sorted by it, ascending; the list consists of the first three candidates (all, if
  fewer) of the straight-line search, each with the driving time of its lookup; and a
  candidate whose lookup failed on every provider carries the straight-line estimate
  (km / 40) * 3600. Such a candidate is ranked by its estimate like any other: before
  the candidates with a larger driving time, after those with a smaller one.
\<close>

theorem ranking_by_driving_time:
  assumes "la \<noteq> 0" and "lo \<noteq> 0"
    and "\<forall>c\<in>set (searchLocation roundsAboveOne geocoder query (Some la) (Some lo)).
           straightLineDistance c \<noteq> Some NaN"
  shows
    "sorted (map (distanceFrom la lo)
       (searchLocation roundsAboveOne geocoder query (Some la) (Some lo))) \<and>
     (\<forall>c\<in>set (searchLocationWithTimes roundsAboveOne geocoder fetches query (Some la) (Some lo)).
        \<exists>t. drivingTime c = Some (Finite t)) \<and>
     sorted (map timeOf
       (searchLocationWithTimes roundsAboveOne geocoder fetches query (Some la) (Some lo))) \<and>
     mset (searchLocationWithTimes roundsAboveOne geocoder fetches query (Some la) (Some lo)) =
       mset (map (withDrivingTime roundsAboveOne fetches la lo
                    (take 3 (searchLocation roundsAboveOne geocoder query (Some la) (Some lo))))
               [0..<length (take 3
                       (searchLocation roundsAboveOne geocoder query (Some la) (Some lo)))]) \<and>
     (\<forall>i<length (take 3 (searchLocation roundsAboveOne geocoder query (Some la) (Some lo))).
        (\<forall>s\<in>set ROUTING_SERVERS. \<not> providerAnswers (fetches i s)) \<longrightarrow>
        drivingTime (withDrivingTime roundsAboveOne fetches la lo
                       (take 3 (searchLocation roundsAboveOne geocoder query (Some la) (Some lo)))
                       i) =
          Some (Finite ((distanceFrom la lo
                   (take 3 (searchLocation roundsAboveOne geocoder query (Some la) (Some lo)) ! i)
                 / 40) * 3600)))"
proof -
  define results where
    "results = searchLocation roundsAboveOne geocoder query (Some la) (Some lo)"
  define topResults where "topResults = take 3 results"
  define timed where
    "timed = map (withDrivingTime roundsAboveOne fetches la lo topResults) [0..<length topResults]"
  have ref: "usableReference (Some la) (Some lo) = Some (la, lo)"
    using assms by (simp add: usableReference_def)
  have out: "searchLocationWithTimes roundsAboveOne geocoder fetches query (Some la) (Some lo) =
      js_sort byDrivingTime timed"
  proof (cases "results = []")
    case True
    then show ?thesis
      by (simp add: searchLocationWithTimes_def ref results_def [symmetric] timed_def
          topResults_def js_sort_def)
  next
    case False
    then show ?thesis
      by (simp add: searchLocationWithTimes_def ref results_def [symmetric] timed_def
          topResults_def Let_def)
  qed
  have number: "\<not> roundsAboveOne la lo (c_lat (topResults ! i)) (c_lon (topResults ! i))"
    if "i < length topResults" for i
  proof -
    from that have "topResults ! i \<in> set topResults" by simp
    then have mem: "topResults ! i \<in> set results"
      unfolding topResults_def by (rule in_set_takeD)
    then have "straightLineDistance (topResults ! i) \<noteq> Some NaN"
      using assms(3) unfolding results_def by blast
    from searchLocation_finite [OF assms(1,2) mem [unfolded results_def] this]
    show ?thesis by simp
  qed
  have some: "\<forall>c\<in>set timed. \<exists>t. drivingTime c = Some (Finite t)"
    unfolding timed_def using number by (auto simp: drivingTime_withDrivingTime)
  have est: "\<forall>i<length topResults.
        (\<forall>s\<in>set ROUTING_SERVERS. \<not> providerAnswers (fetches i s)) \<longrightarrow>
        drivingTime (withDrivingTime roundsAboveOne fetches la lo topResults i) =
          Some (Finite ((distanceFrom la lo (topResults ! i) / 40) * 3600))"
  proof (intro allI impI)
    fix i
    assume i: "i < length topResults"
      and "\<forall>s\<in>set ROUTING_SERVERS. \<not> providerAnswers (fetches i s)"
    then have "estimateLoop (fetches i) ROUTING_SERVERS = None"
      by (simp add: estimateLoop_None)
    then show "drivingTime (withDrivingTime roundsAboveOne fetches la lo topResults i) =
          Some (Finite ((distanceFrom la lo (topResults ! i) / 40) * 3600))"
      using number [OF i]
      by (simp add: drivingTime_withDrivingTime estimateDrivingTime_def Let_def distanceFrom_def)
  qed
  have srt: "sorted (map (distanceFrom la lo) results)"
    using searchLocation_sorted [OF assms] unfolding results_def by simp
  show ?thesis
    unfolding out results_def [symmetric] topResults_def [symmetric] timed_def [symmetric]
    using srt some sorted_byDrivingTime [OF some] est
    by (simp add: set_js_sort mset_js_sort)
qed

theorem ranking_by_driving_time_witness:
  "sorted (map timeOf
     (searchLocationWithTimes
        (\<lambda>lat1 lon1 lat2 lon2. False)
        (\<lambda>request. Some
         [\<lparr>display_name = ''A'', c_lat = 10, c_lon = 10, straightLineDistance = None,
           drivingTime = None, drivingDistance = None\<rparr>,
          \<lparr>display_name = ''B'', c_lat = 10, c_lon = 11, straightLineDistance = None,
           drivingTime = None, drivingDistance = None\<rparr>])
        (\<lambda>(i::nat) s. if i = 0 then AbortError
         else Response 200 \<lparr>code = ''Ok'', routes =
                [\<lparr>duration = 600, distance = 9000, geometry = LineString []\<rparr>]\<rparr>)
        ''bank'' (Some 10) (Some 10)))"
proof -
  have "0 \<le> cos (toRad 10) * cos (toRad 10)" by simp
  then have dB: "0 \<le> calculateDistance 10 10 10 11"
    by (rule calculateDistance_nonneg)
  have "\<forall>c\<in>set (searchLocation (\<lambda>lat1 lon1 lat2 lon2. False)
        (\<lambda>request. Some
         [\<lparr>display_name = ''A'', c_lat = 10, c_lon = 10, straightLineDistance = None,
           drivingTime = None, drivingDistance = None\<rparr>,
          \<lparr>display_name = ''B'', c_lat = 10, c_lon = 11, straightLineDistance = None,
           drivingTime = None, drivingDistance = None\<rparr>])
        ''bank'' (Some 10) (Some 10)). straightLineDistance c \<noteq> Some NaN"
    using dB
    by (simp add: searchLocation_def usableReference_def withStraightLine_def js_sort_def
        sld_def calculateDistanceNumber_def calculateDistance_self)
  from ranking_by_driving_time [OF _ _ this, of
        "(\<lambda>(i::nat) s. if i = 0 then AbortError
         else Response 200 \<lparr>code = ''Ok'', routes =
                [\<lparr>duration = 600, distance = 9000, geometry = LineString []\<rparr>]\<rparr>)"]
  show ?thesis by simp
qed

text \<open>
  C6 as stated fails: candidate A, at the reference point, has its lookup time out on
  every provider, and candidate B has a measured driving time of 600 seconds. A gets the
  estimate 0 and is ranked before B, not after all candidates with a known driving time.
\<close>

theorem failed_lookup_not_demoted:
  "map (\<lambda>c. (display_name c, drivingTime c))
     (searchLocationWithTimes
        (\<lambda>lat1 lon1 lat2 lon2. False)
        (\<lambda>request. Some
         [\<lparr>display_name = ''A'', c_lat = 10, c_lon = 10, straightLineDistance = None,
           drivingTime = None, drivingDistance = None\<rparr>,
          \<lparr>display_name = ''B'', c_lat = 10, c_lon = 11, straightLineDistance = None,
           drivingTime = None, drivingDistance = None\<rparr>])
        (\<lambda>(i::nat) s. if i = 0 then AbortError
         else Response 200 \<lparr>code = ''Ok'', routes =
                [\<lparr>duration = 600, distance = 9000, geometry = LineString []\<rparr>]\<rparr>)
        ''bank'' (Some 10) (Some 10)) =
     [(''A'', Some (Finite 0)), (''B'', Some (Finite 600))] \<and>
   estimateDrivingTime ((\<lambda>(i::nat) s. if i = 0 then AbortError
         else Response 200 \<lparr>code = ''Ok'', routes =
                [\<lparr>duration = 600, distance = 9000, geometry = LineString []\<rparr>]\<rparr>) 0) 10 10 10 10 =
     \<lparr>duration = 0, distance = 0, isEstimate = True\<rparr> \<and>
   estimateDrivingTime ((\<lambda>(i::nat) s. if i = 0 then AbortError
         else Response 200 \<lparr>code = ''Ok'', routes =
                [\<lparr>duration = 600, distance = 9000, geometry = LineString []\<rparr>]\<rparr>) 1) 10 10 10 11 =
     \<lparr>duration = 600, distance = 9000, isEstimate = False\<rparr>"
proof -
  let ?geo = "(\<lambda>request. Some
         [\<lparr>display_name = ''A'', c_lat = 10, c_lon = 10, straightLineDistance = None,
           drivingTime = None, drivingDistance = None\<rparr>,
          \<lparr>display_name = ''B'', c_lat = 10, c_lon = 11, straightLineDistance = None,
           drivingTime = None, drivingDistance = None\<rparr>])"
  let ?fet = "(\<lambda>(i::nat) s. if i = 0 then AbortError
         else Response 200 \<lparr>code = ''Ok'', routes =
                [\<lparr>duration = 600, distance = 9000, geometry = LineString []\<rparr>]\<rparr>)"
  have "0 \<le> cos (toRad 10) * cos (toRad 10)" by simp
  then have dB: "0 \<le> calculateDistance 10 10 10 11"
    by (rule calculateDistance_nonneg)
  have sl: "searchLocation (\<lambda>lat1 lon1 lat2 lon2. False) ?geo ''bank'' (Some 10) (Some 10) =
      [\<lparr>display_name = ''A'', c_lat = 10, c_lon = 10, straightLineDistance = Some (Finite 0),
        drivingTime = None, drivingDistance = None\<rparr>,
       \<lparr>display_name = ''B'', c_lat = 10, c_lon = 11,
        straightLineDistance = Some (Finite (calculateDistance 10 10 10 11)),
        drivingTime = None, drivingDistance = None\<rparr>]"
    using dB
    by (simp add: searchLocation_def usableReference_def withStraightLine_def js_sort_def
        sld_def calculateDistanceNumber_def calculateDistance_self)
  have tA: "estimateDrivingTime (\<lambda>s. AbortError) 10 10 10 10 =
      \<lparr>duration = 0, distance = 0, isEstimate = True\<rparr>"
    by (simp add: estimateDrivingTime_def ROUTING_SERVERS_def tryEstimate_def
        calculateDistance_self)
  have tB: "estimateDrivingTime
      (\<lambda>s. Response 200 \<lparr>code = ''Ok'', routes =
                [\<lparr>duration = 600, distance = 9000, geometry = LineString []\<rparr>]\<rparr>)
      10 10 10 11 =
      \<lparr>duration = 600, distance = 9000, isEstimate = False\<rparr>"
    by (simp add: estimateDrivingTime_def ROUTING_SERVERS_def tryEstimate_def)
  have "map (\<lambda>c. (display_name c, drivingTime c))
     (searchLocationWithTimes (\<lambda>lat1 lon1 lat2 lon2. False) ?geo ?fet ''bank'' (Some 10) (Some 10)) =
     [(''A'', Some (Finite 0)), (''B'', Some (Finite 600))]"
    unfolding searchLocationWithTimes_def sl
    by (simp add: usableReference_def withDrivingTime_def Let_def tA tB js_sort_def
        byDrivingTime_def del: One_nat_def)
  with tA tB show ?thesis by simp
qed

end
